theory Spec2Isabelle
  imports Main "HOL-Library.Word" "HOL-Library.Multiset"
begin

section \<open>Platform: bytes, Web Crypto, JSON\<close>

text \<open>
  The repository is a browser application. Its library code (\<^verbatim>\<open>src/lib/crypto.ts\<close>,
  \<^verbatim>\<open>src/lib/manifest.ts\<close>) calls the Web Crypto API, \<^verbatim>\<open>JSON\<close>, \<^verbatim>\<open>Buffer\<close>, the
  clock and the random generator of the platform. None of these is code of the repository.
  They enter the model as follows.
  \<^item> A \<^verbatim>\<open>Uint8Array\<close> is a list of 8-bit words.
  \<^item> The Web Crypto primitives and the JSON codec are the fields of a record \<open>platform\<close>
    that a function of the model takes as its first argument when it calls one of them.
    Nothing is assumed of them unless a theorem says so.
  \<^item> Every value drawn from \<^verbatim>\<open>crypto.getRandomValues\<close>, \<^verbatim>\<open>crypto.randomUUID\<close> or
    \<^verbatim>\<open>new Date()\<close> is an explicit argument of the function that draws it.
  \<^item> A JavaScript string is a \<open>string\<close>, read as its UTF-8 bytes.
\<close>

type_synonym byte = "8 word"
type_synonym bytes = "byte list"

text \<open>
  A timestamp is the time value of a \<^verbatim>\<open>Date\<close> (milliseconds since the epoch). The code
  stores \<^verbatim>\<open>new Date().toISOString()\<close> and reads it back with
  \<^verbatim>\<open>new Date(s).getTime()\<close>; the ISO rendering is one-to-one and order preserving on
  time values, so the model keeps the time value itself.
\<close>

type_synonym timestamp = int

datatype error =
    Error string      \<comment> \<open>\<^verbatim>\<open>throw new Error(msg)\<close>\<close>
  | TypeError         \<comment> \<open>property access or \<^verbatim>\<open>Buffer.from\<close> on \<^verbatim>\<open>undefined\<close>\<close>
  | SyntaxError       \<comment> \<open>\<^verbatim>\<open>JSON.parse\<close> on a text that is not JSON\<close>
  | OperationError    \<comment> \<open>a rejection of the Web Crypto API\<close>
  | NotFound          \<comment> \<open>the storage has no object under the key\<close>
  | TransportError    \<comment> \<open>the storage cannot be reached\<close>
  | QuotaExceededError  \<comment> \<open>\<^verbatim>\<open>sessionStorage.setItem\<close> refuses the write\<close>

datatype cryptoKey = CryptoKey bytes

datatype kdf = HKDF | PBKDF2

datatype hash = SHA_256

datatype kdfParams =
    HKDF_params hash bytes bytes       \<comment> \<open>hash, salt, info\<close>
  | PBKDF2_params bytes nat hash       \<comment> \<open>salt, iterations, hash\<close>

subsection \<open>The documents that are serialised\<close>

text \<open>
  The object that \<^verbatim>\<open>exportKeyPair\<close> serialises and \<^verbatim>\<open>importKeyPair\<close> parses
  (\<^verbatim>\<open>keyData: any\<close>). A property that is absent (\<^verbatim>\<open>undefined\<close>) is \<open>None\<close>;
  \<open>encrypted\<close> holds the truthiness of the property. The other properties are strings
  when present, and a document is a JSON object (the text \<^verbatim>\<open>null\<close> is outside the model).
\<close>

record keyData =
  encrypted :: bool
  salt :: "string option"
  iv :: "string option"
  data :: "string option"
  privateKey :: "string option"
  publicKey :: "string option"

text \<open>
  Modelled from the spec: the declaration of \<^verbatim>\<open>EncryptedFileInfo\<close> (\<^verbatim>\<open>src/lib/e2ee.ts\<close>)
  is not among the sources. The fields are those of the spec's FileEntry; \<^verbatim>\<open>manifest.ts\<close>
  reads and writes \<open>fileId\<close>, \<open>fileName\<close>, \<open>folderId\<close>, \<open>isFavorite\<close> and \<open>uploadedAt\<close>.
\<close>

record encryptedFileInfo =
  fileId :: string
  fileName :: string
  fileSize :: nat
  mimeType :: string
  folderId :: "string option"
  isFavorite :: bool
  uploadedAt :: timestamp
  fileKey :: string
  fileNonce :: string

text \<open>\<^verbatim>\<open>interface Folder\<close>; the fields carry the prefix \<open>f_\<close>.\<close>

record folder =
  f_id :: string
  f_name :: string
  f_parentId :: "string option"
  f_createdAt :: timestamp
  f_color :: "string option"

text \<open>
  \<^verbatim>\<open>interface Manifest\<close>. The code guards against a manifest without \<open>folders\<close>
  (\<^verbatim>\<open>if (!manifestCache.folders)\<close>, \<^verbatim>\<open>manifestCache.folders?.find\<close>), so the field is
  optional in the model.
\<close>

record manifest =
  version :: int
  files :: "encryptedFileInfo list"
  folders :: "folder list option"
  createdAt :: timestamp
  updatedAt :: timestamp

subsection \<open>The platform\<close>

record platform =
  importKey :: "kdf \<Rightarrow> bytes \<Rightarrow> cryptoKey option"
    \<comment> \<open>\<^verbatim>\<open>crypto.subtle.importKey('raw', bytes, {name}, false, usages)\<close>; \<open>None\<close> when it rejects\<close>
  deriveKey :: "kdfParams \<Rightarrow> cryptoKey \<Rightarrow> nat \<Rightarrow> cryptoKey"
    \<comment> \<open>\<^verbatim>\<open>crypto.subtle.deriveKey(params, keyMaterial, {name: 'AES-GCM', length}, false, usages)\<close>\<close>
  encrypt :: "bytes \<Rightarrow> cryptoKey \<Rightarrow> bytes \<Rightarrow> bytes"
    \<comment> \<open>\<^verbatim>\<open>crypto.subtle.encrypt({name: 'AES-GCM', iv}, key, data)\<close>\<close>
  decrypt :: "bytes \<Rightarrow> cryptoKey \<Rightarrow> bytes \<Rightarrow> bytes option"
    \<comment> \<open>\<^verbatim>\<open>crypto.subtle.decrypt({name: 'AES-GCM', iv}, key, data)\<close>; \<open>None\<close> when it rejects\<close>
  stringifyKeys :: "keyData \<Rightarrow> nat \<Rightarrow> string"
    \<comment> \<open>\<^verbatim>\<open>JSON.stringify(keyData, null, indent)\<close>\<close>
  parseKeys :: "string \<Rightarrow> keyData option"
    \<comment> \<open>\<^verbatim>\<open>JSON.parse(text)\<close>; \<open>None\<close> when it throws\<close>
  stringifyManifest :: "manifest \<Rightarrow> string"
    \<comment> \<open>\<^verbatim>\<open>JSON.stringify(manifest)\<close>\<close>
  parseManifest :: "string \<Rightarrow> manifest option"
    \<comment> \<open>\<^verbatim>\<open>JSON.parse(text)\<close> read as a \<^verbatim>\<open>Manifest\<close>; \<open>None\<close> when it throws\<close>

subsection \<open>Text and hexadecimal encodings\<close>

text \<open>\<^verbatim>\<open>Buffer.from(s, 'utf-8')\<close>, \<^verbatim>\<open>TextEncoder.encode\<close> and their inverses.\<close>

definition utf8 :: "string \<Rightarrow> bytes" where
  "utf8 s = map (\<lambda>c. of_nat (of_char c)) s"

definition utf8_decode :: "bytes \<Rightarrow> string" where
  "utf8_decode bs = map (\<lambda>b. char_of (unat b)) bs"

text \<open>\<^verbatim>\<open>Buffer.from(bytes).toString('hex')\<close>: two lower-case digits for each byte.\<close>

definition hexDigit :: "nat \<Rightarrow> char" where
  "hexDigit n = ''0123456789abcdef'' ! n"

definition byteToHex :: "byte \<Rightarrow> string" where
  "byteToHex b = [hexDigit (unat b div 16), hexDigit (unat b mod 16)]"

definition toHex :: "bytes \<Rightarrow> string" where
  "toHex bs = concat (map byteToHex bs)"

text \<open>
  \<^verbatim>\<open>Buffer.from(s, 'hex')\<close>: decodes pairs of hexadecimal digits of either case and stops
  at the first pair that is not one; it never throws on a string.
\<close>

definition hexValue :: "char \<Rightarrow> nat option" where
  "hexValue c =
     (let n = (of_char c :: nat) in
      if 48 \<le> n \<and> n \<le> 57 then Some (n - 48)
      else if 97 \<le> n \<and> n \<le> 102 then Some (n - 87)
      else if 65 \<le> n \<and> n \<le> 70 then Some (n - 55)
      else None)"

fun fromHex :: "string \<Rightarrow> bytes" where
  "fromHex (c # d # rest) =
     (case (hexValue c, hexValue d) of
        (Some h, Some l) \<Rightarrow> of_nat (16 * h + l) # fromHex rest
      | _ \<Rightarrow> [])"
| "fromHex _ = []"

text \<open>The truthiness of an optional string: \<^verbatim>\<open>undefined\<close> and \<^verbatim>\<open>""\<close> are falsy.\<close>

definition truthy :: "string option \<Rightarrow> bool" where
  "truthy v = (case v of None \<Rightarrow> False | Some s \<Rightarrow> s \<noteq> [])"

section \<open>\<^verbatim>\<open>src/lib/crypto.ts\<close>\<close>

text \<open>
  \<^verbatim>\<open>deriveManifestKeyFromPrivateKey\<close>. The \<^verbatim>\<open>try\<close> block awaits \<^verbatim>\<open>importKey\<close>, whose
  rejection is rethrown as \<^verbatim>\<open>Error('Failed to derive manifest key from private key')\<close>.
  The salt is \<^verbatim>\<open>new Uint8Array(16)\<close>, sixteen zero bytes.
\<close>

definition deriveManifestKeyFromPrivateKey :: "platform \<Rightarrow> string \<Rightarrow> error + cryptoKey" where
  "deriveManifestKeyFromPrivateKey P privateKeyHex =
     (let privateKeyBytes = fromHex privateKeyHex in
      case importKey P HKDF privateKeyBytes of
        None \<Rightarrow> Inl (Error ''Failed to derive manifest key from private key'')
      | Some keyMaterial \<Rightarrow>
          (let salt = replicate 16 (0 :: byte);
               info = utf8 ''manifest-encryption''
           in Inr (deriveKey P (HKDF_params SHA_256 salt info) keyMaterial 256)))"

text \<open>
  \<^verbatim>\<open>exportKeyPair(privateKey, publicKey, password?)\<close>. The arguments \<open>rsalt\<close> and \<open>riv\<close>
  are the 16 and 12 bytes that \<^verbatim>\<open>crypto.getRandomValues\<close> returns; they are drawn only
  in the password branch. Nothing catches a rejection of \<^verbatim>\<open>importKey\<close>.
\<close>

definition exportKeyPair ::
  "platform \<Rightarrow> bytes \<Rightarrow> bytes \<Rightarrow> string \<Rightarrow> string \<Rightarrow> string option \<Rightarrow> error + string" where
  "exportKeyPair P rsalt riv privKey pubKey password =
     (let keyData = \<lparr>encrypted = False, salt = None, iv = None, data = None,
                     privateKey = Some privKey, publicKey = Some pubKey\<rparr> in
      if truthy password then
        (case importKey P PBKDF2 (utf8 (the password)) of
           None \<Rightarrow> Inl OperationError
         | Some keyMaterial \<Rightarrow>
             (let derivedKey = deriveKey P (PBKDF2_params rsalt 100000 SHA_256) keyMaterial 256;
                  plaintext = utf8 (stringifyKeys P keyData 0);
                  encryptedData = encrypt P riv derivedKey plaintext;
                  keyData' = \<lparr>encrypted = True, salt = Some (toHex rsalt), iv = Some (toHex riv),
                              data = Some (toHex encryptedData),
                              privateKey = None, publicKey = None\<rparr>
              in Inr (stringifyKeys P keyData' 2)))
      else Inr (stringifyKeys P keyData 2))"

text \<open>
  \<^verbatim>\<open>importKeyPair(jsonContent, password?)\<close>. The first branch is taken when
  \<^verbatim>\<open>keyData.encrypted && password\<close>; there \<^verbatim>\<open>Buffer.from(undefined, 'hex')\<close> throws a
  \<^verbatim>\<open>TypeError\<close>, the \<^verbatim>\<open>try\<close> block covers \<^verbatim>\<open>decrypt\<close> and the \<^verbatim>\<open>JSON.parse\<close> of its
  result, and the parsed object is returned as it is. The second branch is taken when
  \<^verbatim>\<open>keyData.privateKey && keyData.publicKey\<close>.
\<close>

definition importKeyPair :: "platform \<Rightarrow> string \<Rightarrow> string option \<Rightarrow> error + keyData" where
  "importKeyPair P jsonContent password =
     (case parseKeys P jsonContent of
        None \<Rightarrow> Inl SyntaxError
      | Some keyData \<Rightarrow>
          if encrypted keyData \<and> truthy password then
            (case (salt keyData, iv keyData, data keyData) of
               (Some s, Some i, Some d) \<Rightarrow>
                 (let salt' = fromHex s; iv' = fromHex i; encryptedData = fromHex d in
                  case importKey P PBKDF2 (utf8 (the password)) of
                    None \<Rightarrow> Inl OperationError
                  | Some keyMaterial \<Rightarrow>
                      (let derivedKey =
                             deriveKey P (PBKDF2_params salt' 100000 SHA_256) keyMaterial 256 in
                       case decrypt P iv' derivedKey encryptedData of
                         None \<Rightarrow> Inl (Error ''Failed to decrypt keys. Wrong password?'')
                       | Some decrypted \<Rightarrow>
                           (case parseKeys P (utf8_decode decrypted) of
                              None \<Rightarrow> Inl (Error ''Failed to decrypt keys. Wrong password?'')
                            | Some parsed \<Rightarrow> Inr parsed)))
             | _ \<Rightarrow> Inl TypeError)
          else if truthy (privateKey keyData) \<and> truthy (publicKey keyData) then
            Inr \<lparr>encrypted = False, salt = None, iv = None, data = None,
                 privateKey = privateKey keyData, publicKey = publicKey keyData\<rparr>
          else Inl (Error ''Invalid key file format''))"

section \<open>Storage configuration and storage client\<close>

text \<open>\<^verbatim>\<open>interface StorageConfig\<close> of \<^verbatim>\<open>src/lib/settings.ts\<close>.\<close>

datatype provider = S3 | R2 | Custom

record storageConfig =
  provider :: provider
  endpoint :: string
  region :: string
  bucket :: string
  accessKeyId :: string
  secretAccessKey :: string
  accountId :: "string option"

text \<open>
  A Web Storage area: the items it holds, and which writes it accepts. \<^verbatim>\<open>setItem(k, v)\<close>
  throws (the quota is exceeded, or the browser denies the access) when the area does not
  accept the write; nothing in \<^verbatim>\<open>manifest.ts\<close> catches that, except the \<^verbatim>\<open>try\<close> block of
  \<^verbatim>\<open>syncManifest\<close>.
\<close>

record storageArea =
  items :: "string \<rightharpoonup> string"
  accepts :: "string \<Rightarrow> string \<Rightarrow> bool"

definition setItem :: "string \<Rightarrow> string \<Rightarrow> storageArea \<Rightarrow> error + storageArea" where
  "setItem k v area =
     (if accepts area k v then Inr (area\<lparr>items := (items area)(k \<mapsto> v)\<rparr>)
      else Inl QuotaExceededError)"

text \<open>
  The state that the functions of \<^verbatim>\<open>manifest.ts\<close> read and write: the two module
  variables \<^verbatim>\<open>manifestCache\<close> and \<^verbatim>\<open>masterKeyCache\<close>, the \<^verbatim>\<open>sessionStorage\<close> of the tab
  (\<open>None\<close> when \<^verbatim>\<open>typeof sessionStorage === "undefined"\<close>), and the remote storage: for each
  configuration the objects of its bucket, or \<open>None\<close> when the storage cannot be reached
  with it.
\<close>

record world =
  manifestCache :: "manifest option"
  masterKeyCache :: "cryptoKey option"
  sessionStorage :: "storageArea option"
  remote :: "storageConfig \<Rightarrow> (string \<rightharpoonup> bytes) option"

text \<open>Whether the session storage, when there is one, accepts the write of \<open>v\<close> under \<open>k\<close>.\<close>

definition sessionAccepts :: "world \<Rightarrow> string \<Rightarrow> string \<Rightarrow> bool" where
  "sessionAccepts w k v =
     (case sessionStorage w of None \<Rightarrow> True | Some area \<Rightarrow> accepts area k v)"

text \<open>
  Modelled from the spec: \<^verbatim>\<open>downloadFromStorage\<close> of \<^verbatim>\<open>src/lib/storage-client.ts\<close>, which
  is not among the sources. The spec's BlobStore contract is \<^verbatim>\<open>get(key) -> bytes\<close>, failing
  with \<^verbatim>\<open>NotFound\<close> if absent; a transport failure is an opaque \<^verbatim>\<open>TransportError\<close>.
\<close>

definition downloadFromStorage :: "storageConfig \<Rightarrow> string \<Rightarrow> world \<Rightarrow> error + bytes" where
  "downloadFromStorage config key w =
     (case remote w config of
        None \<Rightarrow> Inl TransportError
      | Some objects \<Rightarrow>
          (case objects key of None \<Rightarrow> Inl NotFound | Some body \<Rightarrow> Inr body))"

text \<open>
  Modelled from the spec: \<^verbatim>\<open>uploadToStorage\<close>, the \<^verbatim>\<open>put(key, bytes) -> ack\<close> of the same
  contract; it replaces what the bucket holds under the key.
\<close>

definition uploadToStorage :: "storageConfig \<Rightarrow> string \<Rightarrow> bytes \<Rightarrow> world \<Rightarrow> error + world" where
  "uploadToStorage config key body w =
     (case remote w config of
        None \<Rightarrow> Inl TransportError
      | Some objects \<Rightarrow> Inr (w\<lparr>remote := (remote w)(config := Some (objects(key \<mapsto> body)))\<rparr>))"

section \<open>\<^verbatim>\<open>src/lib/manifest.ts\<close>\<close>

definition MANIFEST_KEY :: string where
  "MANIFEST_KEY = ''.manifest.enc''"

definition SESSION_CACHE_KEY :: string where
  "SESSION_CACHE_KEY = ''manifest_cache''"

definition SESSION_UNLOCKED_KEY :: string where
  "SESSION_UNLOCKED_KEY = ''manifest_unlocked''"

text \<open>\<^verbatim>\<open>encryptManifest\<close>; \<open>riv\<close> is the 12-byte nonce drawn by \<^verbatim>\<open>crypto.getRandomValues\<close>.\<close>

definition encryptManifest :: "platform \<Rightarrow> bytes \<Rightarrow> manifest \<Rightarrow> cryptoKey \<Rightarrow> bytes" where
  "encryptManifest P riv m masterKey =
     (let data' = utf8 (stringifyManifest P m);
          encrypted' = encrypt P riv masterKey data'
      in riv @ encrypted')"

text \<open>\<^verbatim>\<open>decryptManifest\<close>: the nonce is the first 12 bytes.\<close>

definition decryptManifest :: "platform \<Rightarrow> bytes \<Rightarrow> cryptoKey \<Rightarrow> error + manifest" where
  "decryptManifest P encryptedData masterKey =
     (let iv' = take 12 encryptedData;
          data' = drop 12 encryptedData
      in case decrypt P iv' masterKey data' of
           None \<Rightarrow> Inl OperationError
         | Some decrypted \<Rightarrow>
             (case parseManifest P (utf8_decode decrypted) of
                None \<Rightarrow> Inl SyntaxError
              | Some m \<Rightarrow> Inr m))"

text \<open>
  \<^verbatim>\<open>createEmptyManifest\<close>: \<^verbatim>\<open>new Date()\<close> is read twice, for \<open>createdAt\<close> and for
  \<open>updatedAt\<close>.
\<close>

definition createEmptyManifest :: "timestamp \<Rightarrow> timestamp \<Rightarrow> manifest" where
  "createEmptyManifest created updated =
     \<lparr>version = 1, files = [], folders = Some [], createdAt = created, updatedAt = updated\<rparr>"

text \<open>
  \<^verbatim>\<open>saveToSessionCache\<close>: does nothing without a \<^verbatim>\<open>sessionStorage\<close>; otherwise the
  exception of \<^verbatim>\<open>setItem\<close> is the caller's.
\<close>

definition saveToSessionCache :: "platform \<Rightarrow> manifest \<Rightarrow> world \<Rightarrow> error + world" where
  "saveToSessionCache P m w =
     (case sessionStorage w of
        None \<Rightarrow> Inr w
      | Some area \<Rightarrow>
          (case setItem SESSION_CACHE_KEY (stringifyManifest P m) area of
             Inl e \<Rightarrow> Inl e
           | Inr area' \<Rightarrow> Inr (w\<lparr>sessionStorage := Some area'\<rparr>)))"

text \<open>\<^verbatim>\<open>loadFromSessionCache\<close>: an empty item is falsy, a parse error is ignored.\<close>

definition loadFromSessionCache :: "platform \<Rightarrow> world \<Rightarrow> manifest option" where
  "loadFromSessionCache P w =
     (case sessionStorage w of
        None \<Rightarrow> None
      | Some area \<Rightarrow>
          (case items area SESSION_CACHE_KEY of
             None \<Rightarrow> None
           | Some cached \<Rightarrow> if cached \<noteq> [] then parseManifest P cached else None))"

text \<open>
  The statement that ends \<^verbatim>\<open>initializeManifest\<close> and \<^verbatim>\<open>unlockManifest\<close>:
  \<^verbatim>\<open>if (typeof sessionStorage !== "undefined") sessionStorage.setItem(SESSION_UNLOCKED_KEY, "true")\<close>.
\<close>

definition markUnlocked :: "world \<Rightarrow> error + world" where
  "markUnlocked w =
     (case sessionStorage w of
        None \<Rightarrow> Inr w
      | Some area \<Rightarrow>
          (case setItem SESSION_UNLOCKED_KEY ''true'' area of
             Inl e \<Rightarrow> Inl e
           | Inr area' \<Rightarrow> Inr (w\<lparr>sessionStorage := Some area'\<rparr>)))"

text \<open>
  \<^verbatim>\<open>initializeManifest(config, privateKeyHex)\<close>: \<open>created\<close> and \<open>updated\<close> are the two clock
  readings of \<^verbatim>\<open>createEmptyManifest\<close>, \<open>riv\<close> the nonce of \<^verbatim>\<open>encryptManifest\<close>. The caches
  are assigned after the upload and before the session storage is written.
\<close>

definition initializeManifest ::
  "platform \<Rightarrow> storageConfig \<Rightarrow> timestamp \<Rightarrow> timestamp \<Rightarrow> bytes \<Rightarrow> string \<Rightarrow> world
     \<Rightarrow> (error + unit) \<times> world" where
  "initializeManifest P config created updated riv privateKeyHex w =
     (case deriveManifestKeyFromPrivateKey P privateKeyHex of
        Inl e \<Rightarrow> (Inl e, w)
      | Inr masterKey \<Rightarrow>
          (let m = createEmptyManifest created updated;
               encryptedManifest = encryptManifest P riv m masterKey
           in case uploadToStorage config MANIFEST_KEY encryptedManifest w of
                Inl e \<Rightarrow> (Inl e, w)
              | Inr w1 \<Rightarrow>
                  (let w2 = w1\<lparr>manifestCache := Some m, masterKeyCache := Some masterKey\<rparr> in
                   case saveToSessionCache P m w2 of
                     Inl e \<Rightarrow> (Inl e, w2)
                   | Inr w3 \<Rightarrow>
                       (case markUnlocked w3 of
                          Inl e \<Rightarrow> (Inl e, w3)
                        | Inr w4 \<Rightarrow> (Inr (), w4)))))"

text \<open>
  \<^verbatim>\<open>unlockManifest(config, privateKeyHex)\<close>: derives the key, downloads and decrypts the
  manifest, assigns both caches, writes the session storage and returns the manifest.
\<close>

definition unlockManifest ::
  "platform \<Rightarrow> storageConfig \<Rightarrow> string \<Rightarrow> world \<Rightarrow> (error + manifest) \<times> world" where
  "unlockManifest P config privateKeyHex w =
     (case deriveManifestKeyFromPrivateKey P privateKeyHex of
        Inl e \<Rightarrow> (Inl e, w)
      | Inr masterKey \<Rightarrow>
          (case downloadFromStorage config MANIFEST_KEY w of
             Inl e \<Rightarrow> (Inl e, w)
           | Inr encryptedManifest \<Rightarrow>
               (case decryptManifest P encryptedManifest masterKey of
                  Inl e \<Rightarrow> (Inl e, w)
                | Inr m \<Rightarrow>
                    (let w2 = w\<lparr>manifestCache := Some m, masterKeyCache := Some masterKey\<rparr> in
                     case saveToSessionCache P m w2 of
                       Inl e \<Rightarrow> (Inl e, w2)
                     | Inr w3 \<Rightarrow>
                         (case markUnlocked w3 of
                            Inl e \<Rightarrow> (Inl e, w3)
                          | Inr w4 \<Rightarrow> (Inr m, w4))))))"

text \<open>
  \<^verbatim>\<open>syncManifest\<close>. It returns \<^verbatim>\<open>Manifest | null\<close> and never throws: without a cached
  master key it returns \<^verbatim>\<open>null\<close>, and the \<^verbatim>\<open>catch\<close> block returns \<^verbatim>\<open>null\<close>. The cache is
  assigned after the download and the decryption; \<^verbatim>\<open>saveToSessionCache\<close> is inside the
  \<^verbatim>\<open>try\<close> block, so when it throws the call returns \<^verbatim>\<open>null\<close> with the cache already
  replaced.
\<close>

definition syncManifest :: "platform \<Rightarrow> storageConfig \<Rightarrow> world \<Rightarrow> manifest option \<times> world" where
  "syncManifest P config w =
     (case masterKeyCache w of
        None \<Rightarrow> (None, w)
      | Some masterKey \<Rightarrow>
          (case downloadFromStorage config MANIFEST_KEY w of
             Inl e \<Rightarrow> (None, w)
           | Inr encryptedManifest \<Rightarrow>
               (case decryptManifest P encryptedManifest masterKey of
                  Inl e \<Rightarrow> (None, w)
                | Inr m \<Rightarrow>
                    (let w1 = w\<lparr>manifestCache := Some m\<rparr> in
                     case saveToSessionCache P m w1 of
                       Inl e \<Rightarrow> (None, w1)
                     | Inr w2 \<Rightarrow> (Some m, w2)))))"

text \<open>\<^verbatim>\<open>getManifest\<close>: restores the module cache from the session cache when it is empty.\<close>

definition getManifest :: "platform \<Rightarrow> world \<Rightarrow> manifest option \<times> world" where
  "getManifest P w =
     (case manifestCache w of
        Some m \<Rightarrow> (Some m, w)
      | None \<Rightarrow>
          (case loadFromSessionCache P w of
             Some cached \<Rightarrow> (Some cached, w\<lparr>manifestCache := Some cached\<rparr>)
           | None \<Rightarrow> (None, w)))"

text \<open>
  \<^verbatim>\<open>getFilesFromManifest\<close>: \<^verbatim>\<open>[...manifest.files].sort((a, b) => t(b) - t(a))\<close>, with \<open>t\<close> the
  time value of \<open>uploadedAt\<close>. \<^verbatim>\<open>Array.prototype.sort\<close> is a stable sort along the comparator,
  here by the negated time value; the copy is sorted, the manifest is not written.
\<close>

definition getFilesFromManifest :: "platform \<Rightarrow> world \<Rightarrow> encryptedFileInfo list \<times> world" where
  "getFilesFromManifest P w =
     (case getManifest P w of
        (None, w') \<Rightarrow> ([], w')
      | (Some m, w') \<Rightarrow> (sort_key (\<lambda>f. - uploadedAt f) (files m), w'))"

definition getFileFromManifest ::
  "platform \<Rightarrow> string \<Rightarrow> world \<Rightarrow> encryptedFileInfo option \<times> world" where
  "getFileFromManifest P fid w =
     (case getManifest P w of
        (None, w') \<Rightarrow> (None, w')
      | (Some m, w') \<Rightarrow> (find (\<lambda>f. fileId f = fid) (files m), w'))"

text \<open>
  The three statements that end every mutation:
  \<^verbatim>\<open>encryptManifest(manifestCache, masterKeyCache)\<close>,
  \<^verbatim>\<open>uploadToStorage(config, MANIFEST_KEY, encryptedManifest)\<close>,
  \<^verbatim>\<open>saveToSessionCache(manifestCache)\<close>. The manifest \<open>m\<close> is the one already written to
  the cache of \<open>w\<close>; when the upload fails the exception leaves the cache as it is, and when
  the session storage refuses the write the exception comes after the upload.
\<close>

definition sealAndUpload ::
  "platform \<Rightarrow> storageConfig \<Rightarrow> bytes \<Rightarrow> manifest \<Rightarrow> cryptoKey \<Rightarrow> world \<Rightarrow> (error + unit) \<times> world" where
  "sealAndUpload P config riv m masterKey w =
     (let encryptedManifest = encryptManifest P riv m masterKey in
      case uploadToStorage config MANIFEST_KEY encryptedManifest w of
        Inl e \<Rightarrow> (Inl e, w)
      | Inr w' \<Rightarrow>
          (case saveToSessionCache P m w' of
             Inl e \<Rightarrow> (Inl e, w')
           | Inr w'' \<Rightarrow> (Inr (), w'')))"

text \<open>An assignment to a property of the first element that \<^verbatim>\<open>find\<close> returns.\<close>

fun updateFirst :: "('a \<Rightarrow> bool) \<Rightarrow> ('a \<Rightarrow> 'a) \<Rightarrow> 'a list \<Rightarrow> 'a list" where
  "updateFirst p g [] = []"
| "updateFirst p g (x # xs) = (if p x then g x # xs else x # updateFirst p g xs)"

text \<open>
  In the mutations below \<open>now\<close> is the value of \<^verbatim>\<open>new Date()\<close> that is written to
  \<open>updatedAt\<close> and \<open>riv\<close> the nonce drawn by \<^verbatim>\<open>encryptManifest\<close>. The cache is mutated
  before the upload, so the state is returned on failure as well.
\<close>

definition addFileToManifest ::
  "platform \<Rightarrow> storageConfig \<Rightarrow> timestamp \<Rightarrow> bytes \<Rightarrow> encryptedFileInfo \<Rightarrow> world
     \<Rightarrow> (error + unit) \<times> world" where
  "addFileToManifest P config now riv fileInfo w =
     (case (manifestCache w, masterKeyCache w) of
        (Some m, Some masterKey) \<Rightarrow>
          (let m' = m\<lparr>files := files m @ [fileInfo], updatedAt := now\<rparr> in
           sealAndUpload P config riv m' masterKey (w\<lparr>manifestCache := Some m'\<rparr>))
      | _ \<Rightarrow> (Inl (Error ''Manifest not unlocked''), w))"

definition removeFileFromManifest ::
  "platform \<Rightarrow> storageConfig \<Rightarrow> timestamp \<Rightarrow> bytes \<Rightarrow> string \<Rightarrow> world
     \<Rightarrow> (error + unit) \<times> world" where
  "removeFileFromManifest P config now riv fid w =
     (case (manifestCache w, masterKeyCache w) of
        (Some m, Some masterKey) \<Rightarrow>
          (let m' = m\<lparr>files := filter (\<lambda>f. fileId f \<noteq> fid) (files m), updatedAt := now\<rparr> in
           sealAndUpload P config riv m' masterKey (w\<lparr>manifestCache := Some m'\<rparr>))
      | _ \<Rightarrow> (Inl (Error ''Manifest not unlocked''), w))"

definition removeFilesFromManifest ::
  "platform \<Rightarrow> storageConfig \<Rightarrow> timestamp \<Rightarrow> bytes \<Rightarrow> string list \<Rightarrow> world
     \<Rightarrow> (error + unit) \<times> world" where
  "removeFilesFromManifest P config now riv fileIds w =
     (case (manifestCache w, masterKeyCache w) of
        (Some m, Some masterKey) \<Rightarrow>
          (let idsSet = set fileIds;
               m' = m\<lparr>files := filter (\<lambda>f. fileId f \<notin> idsSet) (files m), updatedAt := now\<rparr>
           in sealAndUpload P config riv m' masterKey (w\<lparr>manifestCache := Some m'\<rparr>))
      | _ \<Rightarrow> (Inl (Error ''Manifest not unlocked''), w))"

text \<open>\<^verbatim>\<open>toggleFileFavorite\<close> returns the new value of \<open>isFavorite\<close>.\<close>

definition toggleFileFavorite ::
  "platform \<Rightarrow> storageConfig \<Rightarrow> timestamp \<Rightarrow> bytes \<Rightarrow> string \<Rightarrow> world
     \<Rightarrow> (error + bool) \<times> world" where
  "toggleFileFavorite P config now riv fid w =
     (case (manifestCache w, masterKeyCache w) of
        (Some m, Some masterKey) \<Rightarrow>
          (case find (\<lambda>f. fileId f = fid) (files m) of
             None \<Rightarrow> (Inl (Error ''File not found''), w)
           | Some file \<Rightarrow>
               (let m' = m\<lparr>files := updateFirst (\<lambda>f. fileId f = fid)
                                       (\<lambda>f. f\<lparr>isFavorite := \<not> isFavorite f\<rparr>) (files m),
                            updatedAt := now\<rparr>
                in case sealAndUpload P config riv m' masterKey (w\<lparr>manifestCache := Some m'\<rparr>) of
                     (Inl e, w') \<Rightarrow> (Inl e, w')
                   | (Inr u, w') \<Rightarrow> (Inr (\<not> isFavorite file), w')))
      | _ \<Rightarrow> (Inl (Error ''Manifest not unlocked''), w))"

text \<open>
  \<^verbatim>\<open>createFolder\<close>: \<open>newId\<close> is the value of \<^verbatim>\<open>crypto.randomUUID()\<close>, \<open>created\<close> the clock
  reading stored in the folder, \<open>now\<close> the later one stored in \<open>updatedAt\<close>.
\<close>

definition createFolder ::
  "platform \<Rightarrow> storageConfig \<Rightarrow> string \<Rightarrow> timestamp \<Rightarrow> timestamp \<Rightarrow> bytes
     \<Rightarrow> string \<Rightarrow> string option \<Rightarrow> string option \<Rightarrow> world \<Rightarrow> (error + folder) \<times> world" where
  "createFolder P config newId created now riv name' parentId' color' w =
     (case (manifestCache w, masterKeyCache w) of
        (Some m, Some masterKey) \<Rightarrow>
          (let folder' = \<lparr>f_id = newId, f_name = name', f_parentId = parentId',
                         f_createdAt = created, f_color = color'\<rparr>;
               folders' = (case folders m of None \<Rightarrow> [] | Some fs \<Rightarrow> fs);
               m' = m\<lparr>folders := Some (folders' @ [folder']), updatedAt := now\<rparr>
           in case sealAndUpload P config riv m' masterKey (w\<lparr>manifestCache := Some m'\<rparr>) of
                (Inl e, w') \<Rightarrow> (Inl e, w')
              | (Inr u, w') \<Rightarrow> (Inr folder', w'))
      | _ \<Rightarrow> (Inl (Error ''Manifest not unlocked''), w))"

definition moveFileToFolder ::
  "platform \<Rightarrow> storageConfig \<Rightarrow> timestamp \<Rightarrow> bytes \<Rightarrow> string \<Rightarrow> string option \<Rightarrow> world
     \<Rightarrow> (error + unit) \<times> world" where
  "moveFileToFolder P config now riv fid target w =
     (case (manifestCache w, masterKeyCache w) of
        (Some m, Some masterKey) \<Rightarrow>
          (case find (\<lambda>f. fileId f = fid) (files m) of
             None \<Rightarrow> (Inl (Error ''File not found''), w)
           | Some file \<Rightarrow>
               (let m' = m\<lparr>files := updateFirst (\<lambda>f. fileId f = fid)
                                       (\<lambda>f. f\<lparr>folderId := target\<rparr>) (files m),
                            updatedAt := now\<rparr>
                in sealAndUpload P config riv m' masterKey (w\<lparr>manifestCache := Some m'\<rparr>)))
      | _ \<Rightarrow> (Inl (Error ''Manifest not unlocked''), w))"

definition moveFilesToFolder ::
  "platform \<Rightarrow> storageConfig \<Rightarrow> timestamp \<Rightarrow> bytes \<Rightarrow> string list \<Rightarrow> string option \<Rightarrow> world
     \<Rightarrow> (error + unit) \<times> world" where
  "moveFilesToFolder P config now riv fileIds target w =
     (case (manifestCache w, masterKeyCache w) of
        (Some m, Some masterKey) \<Rightarrow>
          (let idsSet = set fileIds;
               m' = m\<lparr>files := map (\<lambda>f. if fileId f \<in> idsSet then f\<lparr>folderId := target\<rparr> else f)
                                   (files m),
                      updatedAt := now\<rparr>
           in sealAndUpload P config riv m' masterKey (w\<lparr>manifestCache := Some m'\<rparr>))
      | _ \<Rightarrow> (Inl (Error ''Manifest not unlocked''), w))"

text \<open>
  \<^verbatim>\<open>deleteFolder(config, folderId, deleteContents = false)\<close> returns the identifiers of the
  deleted files. The files are rewritten first; \<^verbatim>\<open>manifestCache.folders.filter\<close> then throws
  a \<^verbatim>\<open>TypeError\<close> on a manifest without \<open>folders\<close>.
\<close>

definition deleteFolder ::
  "platform \<Rightarrow> storageConfig \<Rightarrow> timestamp \<Rightarrow> bytes \<Rightarrow> string \<Rightarrow> bool \<Rightarrow> world
     \<Rightarrow> (error + string list) \<times> world" where
  "deleteFolder P config now riv fid deleteContents w =
     (case (manifestCache w, masterKeyCache w) of
        (Some m, Some masterKey) \<Rightarrow>
          (let filesInFolder = filter (\<lambda>f. folderId f = Some fid) (files m);
               deletedFileIds = (if deleteContents then map fileId filesInFolder else []);
               m1 = (if deleteContents
                     then m\<lparr>files := filter (\<lambda>f. folderId f \<noteq> Some fid) (files m)\<rparr>
                     else m\<lparr>files := map (\<lambda>f. if folderId f = Some fid
                                                then f\<lparr>folderId := None\<rparr> else f) (files m)\<rparr>)
           in case folders m1 of
                None \<Rightarrow> (Inl TypeError, w\<lparr>manifestCache := Some m1\<rparr>)
              | Some fs \<Rightarrow>
                  (let m' = m1\<lparr>folders := Some (filter (\<lambda>f. f_id f \<noteq> fid) fs),
                               updatedAt := now\<rparr>
                   in case sealAndUpload P config riv m' masterKey (w\<lparr>manifestCache := Some m'\<rparr>) of
                        (Inl e, w') \<Rightarrow> (Inl e, w')
                      | (Inr u, w') \<Rightarrow> (Inr deletedFileIds, w')))
      | _ \<Rightarrow> (Inl (Error ''Manifest not unlocked''), w))"

definition renameFolder ::
  "platform \<Rightarrow> storageConfig \<Rightarrow> timestamp \<Rightarrow> bytes \<Rightarrow> string \<Rightarrow> string \<Rightarrow> world
     \<Rightarrow> (error + unit) \<times> world" where
  "renameFolder P config now riv fid newName w =
     (case (manifestCache w, masterKeyCache w) of
        (Some m, Some masterKey) \<Rightarrow>
          (case (case folders m of None \<Rightarrow> None | Some fs \<Rightarrow> find (\<lambda>f. f_id f = fid) fs) of
             None \<Rightarrow> (Inl (Error ''Folder not found''), w)
           | Some folder' \<Rightarrow>
               (let m' = m\<lparr>folders := map_option (updateFirst (\<lambda>f. f_id f = fid)
                                                      (\<lambda>f. f\<lparr>f_name := newName\<rparr>)) (folders m),
                            updatedAt := now\<rparr>
                in sealAndUpload P config riv m' masterKey (w\<lparr>manifestCache := Some m'\<rparr>)))
      | _ \<Rightarrow> (Inl (Error ''Manifest not unlocked''), w))"

definition renameFile ::
  "platform \<Rightarrow> storageConfig \<Rightarrow> timestamp \<Rightarrow> bytes \<Rightarrow> string \<Rightarrow> string \<Rightarrow> world
     \<Rightarrow> (error + unit) \<times> world" where
  "renameFile P config now riv fid newName w =
     (case (manifestCache w, masterKeyCache w) of
        (Some m, Some masterKey) \<Rightarrow>
          (case find (\<lambda>f. fileId f = fid) (files m) of
             None \<Rightarrow> (Inl (Error ''File not found''), w)
           | Some file \<Rightarrow>
               (let m' = m\<lparr>files := updateFirst (\<lambda>f. fileId f = fid)
                                       (\<lambda>f. f\<lparr>fileName := newName\<rparr>) (files m),
                            updatedAt := now\<rparr>
                in sealAndUpload P config riv m' masterKey (w\<lparr>manifestCache := Some m'\<rparr>)))
      | _ \<Rightarrow> (Inl (Error ''Manifest not unlocked''), w))"

text \<open>
  \<^verbatim>\<open>fileName.lastIndexOf(c)\<close>; the result \<^verbatim>\<open>-1\<close> is \<open>None\<close>.
\<close>

definition lastIndexOf :: "string \<Rightarrow> char \<Rightarrow> nat option" where
  "lastIndexOf s c =
     (if c \<in> set s then Some (length s - 1 - length (takeWhile (\<lambda>x. x \<noteq> c) (rev s)))
      else None)"

definition addCopySuffix :: "string \<Rightarrow> string" where
  "addCopySuffix fileName' =
     (case lastIndexOf fileName' (CHR ''.'') of
        None \<Rightarrow> fileName' @ '' (copy)''
      | Some lastDot \<Rightarrow>
          (let name' = take lastDot fileName';
               ext = drop lastDot fileName'
           in name' @ '' (copy)'' @ ext))"

text \<open>
  The loop of \<^verbatim>\<open>copyFilesToFolder\<close>. The argument \<open>i\<close> counts the iterations; \<open>draw i\<close>
  is the pair of \<^verbatim>\<open>crypto.randomUUID()\<close> and \<^verbatim>\<open>new Date()\<close> that iteration \<open>i\<close> obtains if
  it gets that far. An identifier that \<^verbatim>\<open>find\<close> does not find is skipped; a failed download
  or upload ends the call with what was copied so far left in the cache and in the storage.
  The \<^verbatim>\<open>onProgress\<close> callback of the caller is not part of the model.
\<close>

fun copyLoop ::
  "storageConfig \<Rightarrow> string option \<Rightarrow> (nat \<Rightarrow> string \<times> timestamp) \<Rightarrow> nat \<Rightarrow> string list
     \<Rightarrow> string list \<Rightarrow> world \<Rightarrow> (error + string list) \<times> world" where
  "copyLoop config target draw i [] newFileIds w = (Inr newFileIds, w)"
| "copyLoop config target draw i (fid # rest) newFileIds w =
     (case manifestCache w of
        None \<Rightarrow> (Inl TypeError, w)
      | Some m \<Rightarrow>
          (case find (\<lambda>f. fileId f = fid) (files m) of
             None \<Rightarrow> copyLoop config target draw (Suc i) rest newFileIds w
           | Some originalFile \<Rightarrow>
               (case downloadFromStorage config (''files/'' @ fid) w of
                  Inl e \<Rightarrow> (Inl e, w)
                | Inr encryptedData \<Rightarrow>
                    (let newFileId = fst (draw i) in
                     case uploadToStorage config (''files/'' @ newFileId) encryptedData w of
                       Inl e \<Rightarrow> (Inl e, w)
                     | Inr w1 \<Rightarrow>
                         (let newFile = originalFile
                                \<lparr>fileId := newFileId,
                                 folderId := target,
                                 uploadedAt := snd (draw i),
                                 fileName := (if target = folderId originalFile
                                              then addCopySuffix (fileName originalFile)
                                              else fileName originalFile)\<rparr>;
                              w2 = w1\<lparr>manifestCache := Some (m\<lparr>files := files m @ [newFile]\<rparr>)\<rparr>
                          in copyLoop config target draw (Suc i) rest
                               (newFileIds @ [newFileId]) w2)))))"

text \<open>
  \<^verbatim>\<open>copyFilesToFolder\<close>: \<open>updatedAt\<close> is written, and the manifest sealed and uploaded, only
  \<^verbatim>\<open>if (newFileIds.length > 0)\<close>.
\<close>

definition copyFilesToFolder ::
  "platform \<Rightarrow> storageConfig \<Rightarrow> (nat \<Rightarrow> string \<times> timestamp) \<Rightarrow> timestamp \<Rightarrow> bytes
     \<Rightarrow> string list \<Rightarrow> string option \<Rightarrow> world \<Rightarrow> (error + string list) \<times> world" where
  "copyFilesToFolder P config draw now riv fileIds target w =
     (case (manifestCache w, masterKeyCache w) of
        (Some m0, Some masterKey) \<Rightarrow>
          (case copyLoop config target draw 0 fileIds [] w of
             (Inl e, w') \<Rightarrow> (Inl e, w')
           | (Inr newFileIds, w') \<Rightarrow>
               if newFileIds \<noteq> [] then
                 (case manifestCache w' of
                    None \<Rightarrow> (Inl TypeError, w')
                  | Some m \<Rightarrow>
                      (let m' = m\<lparr>updatedAt := now\<rparr> in
                       case sealAndUpload P config riv m' masterKey
                              (w'\<lparr>manifestCache := Some m'\<rparr>) of
                         (Inl e, w'') \<Rightarrow> (Inl e, w'')
                       | (Inr u, w'') \<Rightarrow> (Inr newFileIds, w'')))
               else (Inr newFileIds, w'))
      | _ \<Rightarrow> (Inl (Error ''Manifest not unlocked''), w))"

subsection \<open>The mutation family\<close>

text \<open>
  The mutating exports of \<^verbatim>\<open>manifest.ts\<close> as one request type, so that a statement about
  every mutation is a statement about \<open>mutate\<close>. The record \<open>draws\<close> holds what a call
  obtains from the clock and the random generator.
\<close>

datatype mutation =
    AddFile encryptedFileInfo
  | RemoveFile string
  | RemoveFiles "string list"
  | ToggleFavorite string
  | CreateFolder string "string option" "string option"
  | MoveFile string "string option"
  | MoveFiles "string list" "string option"
  | DeleteFolder string bool
  | RenameFolder string string
  | RenameFile string string
  | CopyFiles "string list" "string option"

record draws =
  d_now :: timestamp
  d_iv :: bytes
  d_uuid :: string
  d_created :: timestamp
  d_copy :: "nat \<Rightarrow> string \<times> timestamp"

datatype outcome = Done | DoneBool bool | DoneFolder folder | DoneIds "string list"

definition returning ::
  "('a \<Rightarrow> outcome) \<Rightarrow> (error + 'a) \<times> world \<Rightarrow> (error + outcome) \<times> world" where
  "returning g r = (case r of (Inl e, w) \<Rightarrow> (Inl e, w) | (Inr x, w) \<Rightarrow> (Inr (g x), w))"

fun mutate ::
  "platform \<Rightarrow> storageConfig \<Rightarrow> draws \<Rightarrow> mutation \<Rightarrow> world \<Rightarrow> (error + outcome) \<times> world" where
  "mutate P c d (AddFile info) w =
     returning (\<lambda>_. Done) (addFileToManifest P c (d_now d) (d_iv d) info w)"
| "mutate P c d (RemoveFile fid) w =
     returning (\<lambda>_. Done) (removeFileFromManifest P c (d_now d) (d_iv d) fid w)"
| "mutate P c d (RemoveFiles ids) w =
     returning (\<lambda>_. Done) (removeFilesFromManifest P c (d_now d) (d_iv d) ids w)"
| "mutate P c d (ToggleFavorite fid) w =
     returning DoneBool (toggleFileFavorite P c (d_now d) (d_iv d) fid w)"
| "mutate P c d (CreateFolder n parent col) w =
     returning DoneFolder
       (createFolder P c (d_uuid d) (d_created d) (d_now d) (d_iv d) n parent col w)"
| "mutate P c d (MoveFile fid target) w =
     returning (\<lambda>_. Done) (moveFileToFolder P c (d_now d) (d_iv d) fid target w)"
| "mutate P c d (MoveFiles ids target) w =
     returning (\<lambda>_. Done) (moveFilesToFolder P c (d_now d) (d_iv d) ids target w)"
| "mutate P c d (DeleteFolder fid deleteContents) w =
     returning DoneIds (deleteFolder P c (d_now d) (d_iv d) fid deleteContents w)"
| "mutate P c d (RenameFolder fid n) w =
     returning (\<lambda>_. Done) (renameFolder P c (d_now d) (d_iv d) fid n w)"
| "mutate P c d (RenameFile fid n) w =
     returning (\<lambda>_. Done) (renameFile P c (d_now d) (d_iv d) fid n w)"
| "mutate P c d (CopyFiles ids target) w =
     returning DoneIds (copyFilesToFolder P c (d_copy d) (d_now d) (d_iv d) ids target w)"

section \<open>What the theorems assume of the platform\<close>

text \<open>
  \<^verbatim>\<open>JSON.parse\<close> returns the document that \<^verbatim>\<open>JSON.stringify\<close> was given, at any
  indentation.
\<close>

definition jsonRoundTrips :: "platform \<Rightarrow> bool" where
  "jsonRoundTrips P = (\<forall>kd n. parseKeys P (stringifyKeys P kd n) = Some kd)"

text \<open>AES-GCM opens, under the same key and nonce, what it sealed.\<close>

definition aeadOpens :: "platform \<Rightarrow> bool" where
  "aeadOpens P = (\<forall>nonce k d. decrypt P nonce k (encrypt P nonce k d) = Some d)"

text \<open>The object \<^verbatim>\<open>{ privateKey, publicKey }\<close>.\<close>

definition keyPairDoc :: "string \<Rightarrow> string \<Rightarrow> keyData" where
  "keyPairDoc priv pub = \<lparr>encrypted = False, salt = None, iv = None, data = None,
                          privateKey = Some priv, publicKey = Some pub\<rparr>"

text \<open>A call of \<^verbatim>\<open>copyFilesToFolder\<close> that found none of the identifiers.\<close>

definition copiedNothing :: "mutation \<Rightarrow> outcome \<Rightarrow> bool" where
  "copiedNothing op r = (case op of CopyFiles ids target \<Rightarrow> r = DoneIds [] | _ \<Rightarrow> False)"

text \<open>The body of the \<^verbatim>\<open>forEach\<close> of \<^verbatim>\<open>deleteFolder\<close>, named for the proofs.\<close>

definition reparent :: "string \<Rightarrow> encryptedFileInfo \<Rightarrow> encryptedFileInfo" where
  "reparent F f = (if folderId f = Some F then f\<lparr>folderId := None\<rparr> else f)"

section \<open>A platform and a state to run the model on\<close>

text \<open>
  An executable stand-in for the platform, so that the model can be evaluated on concrete
  inputs. Its cipher appends the key and the nonce as a tag and checks them when opening; its
  key derivation appends the salt (and the context) to the key material, so that different
  keys derive different keys; its JSON text for a key document writes each property with a
  length prefix in unary. None of it is cryptography: the stand-in only has the two
  properties above.
\<close>

definition encodeField :: "string option \<Rightarrow> string" where
  "encodeField v =
     (case v of
        None \<Rightarrow> ''n''
      | Some s \<Rightarrow> ''s'' @ replicate (length s) (CHR ''1'') @ ''0'' @ s)"

definition decodeField :: "string \<Rightarrow> (string option \<times> string) option" where
  "decodeField t =
     (case t of
        [] \<Rightarrow> None
      | c # r \<Rightarrow>
          if c = CHR ''n'' then Some (None, r)
          else if c = CHR ''s'' then
            (let n = length (takeWhile (\<lambda>x. x = CHR ''1'') r);
                 r' = drop (Suc n) r
             in if n < length r \<and> n \<le> length r' then Some (Some (take n r'), drop n r')
                else None)
          else None)"

definition refStringifyKeys :: "keyData \<Rightarrow> nat \<Rightarrow> string" where
  "refStringifyKeys kd indent =
     (if encrypted kd then ''t'' else ''f'') @ encodeField (salt kd) @ encodeField (iv kd)
       @ encodeField (data kd) @ encodeField (privateKey kd) @ encodeField (publicKey kd)"

definition refParseKeys :: "string \<Rightarrow> keyData option" where
  "refParseKeys t =
     (case t of
        [] \<Rightarrow> None
      | c # r0 \<Rightarrow>
          if c = CHR ''t'' \<or> c = CHR ''f'' then
          (case decodeField r0 of None \<Rightarrow> None | Some (a, r1) \<Rightarrow>
          (case decodeField r1 of None \<Rightarrow> None | Some (b, r2) \<Rightarrow>
          (case decodeField r2 of None \<Rightarrow> None | Some (d, r3) \<Rightarrow>
          (case decodeField r3 of None \<Rightarrow> None | Some (e, r4) \<Rightarrow>
          (case decodeField r4 of None \<Rightarrow> None | Some (g, r5) \<Rightarrow>
             if r5 = [] then
               Some \<lparr>encrypted = (c = CHR ''t''), salt = a, iv = b, data = d,
                     privateKey = e, publicKey = g\<rparr>
             else None)))))
          else None)"

fun refDeriveKey :: "kdfParams \<Rightarrow> cryptoKey \<Rightarrow> nat \<Rightarrow> cryptoKey" where
  "refDeriveKey (HKDF_params h s i) (CryptoKey b) n = CryptoKey (b @ s @ i)"
| "refDeriveKey (PBKDF2_params s it h) (CryptoKey b) n = CryptoKey (b @ s)"

fun refEncrypt :: "bytes \<Rightarrow> cryptoKey \<Rightarrow> bytes \<Rightarrow> bytes" where
  "refEncrypt nonce (CryptoKey k) d = d @ k @ nonce"

fun refDecrypt :: "bytes \<Rightarrow> cryptoKey \<Rightarrow> bytes \<Rightarrow> bytes option" where
  "refDecrypt nonce (CryptoKey k) c =
     (let tag = k @ nonce; n = length c - length tag
      in if length tag \<le> length c \<and> drop n c = tag then Some (take n c) else None)"

text \<open>
  The stand-in's text for a manifest: the three numbers in unary, then the identifiers of the
  folders and of the files. It is parsed back only when the manifest has an empty folder
  list and no file, which is the manifest that \<^verbatim>\<open>initializeManifest\<close> writes.
\<close>

definition encodeInt :: "int \<Rightarrow> string" where
  "encodeInt i = (if i < 0 then ''-'' else ''+'') @ replicate (nat \<bar>i\<bar>) (CHR ''1'') @ ''0''"

definition decodeInt :: "string \<Rightarrow> (int \<times> string) option" where
  "decodeInt t =
     (case t of
        [] \<Rightarrow> None
      | c # r \<Rightarrow>
          if c = CHR ''-'' \<or> c = CHR ''+'' then
            (let n = length (takeWhile (\<lambda>x. x = CHR ''1'') r) in
             if n < length r
             then Some ((if c = CHR ''-'' then - int n else int n), drop (Suc n) r)
             else None)
          else None)"

definition refStringifyManifest :: "manifest \<Rightarrow> string" where
  "refStringifyManifest m =
     encodeInt (version m) @ encodeInt (createdAt m) @ encodeInt (updatedAt m)
       @ (case folders m of
            None \<Rightarrow> ''u''
          | Some fs \<Rightarrow> ''d'' @ concat (map (\<lambda>g. f_id g @ '';'') fs))
       @ ''|'' @ concat (map (\<lambda>f. fileId f @ '';'') (files m))"

definition refParseManifest :: "string \<Rightarrow> manifest option" where
  "refParseManifest t =
     (case decodeInt t of None \<Rightarrow> None | Some (v, r1) \<Rightarrow>
     (case decodeInt r1 of None \<Rightarrow> None | Some (c, r2) \<Rightarrow>
     (case decodeInt r2 of None \<Rightarrow> None | Some (u, r3) \<Rightarrow>
        if r3 = ''d|''
        then Some \<lparr>version = v, files = [], folders = Some [], createdAt = c, updatedAt = u\<rparr>
        else None)))"

definition refPlatform :: platform where
  "refPlatform =
     \<lparr>importKey = (\<lambda>a b. Some (CryptoKey b)),
      deriveKey = refDeriveKey,
      encrypt = refEncrypt,
      decrypt = refDecrypt,
      stringifyKeys = refStringifyKeys,
      parseKeys = refParseKeys,
      stringifyManifest = refStringifyManifest,
      parseManifest = refParseManifest\<rparr>"

definition refConfig :: storageConfig where
  "refConfig = \<lparr>provider = R2, endpoint = ''https://r2.example'', region = ''auto'',
                 bucket = ''vault'', accessKeyId = ''id'', secretAccessKey = ''secret'',
                 accountId = None\<rparr>"

definition refFile :: "string \<Rightarrow> string \<Rightarrow> string option \<Rightarrow> timestamp \<Rightarrow> encryptedFileInfo" where
  "refFile fid n parent t =
     \<lparr>fileId = fid, fileName = n, fileSize = 3, mimeType = ''text/plain'', folderId = parent,
      isFavorite = False, uploadedAt = t, fileKey = ''6b'', fileNonce = ''6e''\<rparr>"

definition refFolder :: "string \<Rightarrow> string \<Rightarrow> string option \<Rightarrow> folder" where
  "refFolder fid n parent =
     \<lparr>f_id = fid, f_name = n, f_parentId = parent, f_createdAt = 5, f_color = None\<rparr>"

definition refManifest :: manifest where
  "refManifest =
     \<lparr>version = 1,
      files = [refFile ''f1'' ''a.txt'' (Some ''F'') 10, refFile ''f2'' ''b.txt'' None 20,
               refFile ''f3'' ''c'' (Some ''G'') 15],
      folders = Some [refFolder ''F'' ''Docs'' None, refFolder ''G'' ''Sub'' (Some ''F'')],
      createdAt = 5, updatedAt = 30\<rparr>"

definition refKey :: cryptoKey where
  "refKey = CryptoKey [1, 2, 3]"

definition refObjects :: "string \<rightharpoonup> bytes" where
  "refObjects = [''files/f1'' \<mapsto> [7, 8, 9]]"

definition refArea :: storageArea where
  "refArea = \<lparr>items = Map.empty, accepts = (\<lambda>k v. True)\<rparr>"

definition refWorld :: world where
  "refWorld =
     \<lparr>manifestCache = Some refManifest, masterKeyCache = Some refKey,
      sessionStorage = Some refArea,
      remote = (\<lambda>c. if c = refConfig then Some refObjects else None)\<rparr>"

text \<open>A locked state with an empty bucket, and a nonce of twelve bytes.\<close>

definition lockedWorld :: world where
  "lockedWorld =
     \<lparr>manifestCache = None, masterKeyCache = None, sessionStorage = Some refArea,
      remote = (\<lambda>c. if c = refConfig then Some Map.empty else None)\<rparr>"

definition refNonce :: bytes where
  "refNonce = [1, 2, 3, 4, 5, 6, 7, 8, 9, 10, 11, 12]"

definition offlineWorld :: world where
  "offlineWorld = refWorld\<lparr>remote := (\<lambda>c. None)\<rparr>"

definition refDraws :: draws where
  "refDraws = \<lparr>d_now = 50, d_iv = [0], d_uuid = ''u0'', d_created = 49,
                d_copy = (\<lambda>i. (''u1'', 40))\<rparr>"

text \<open>
  The state after the key \<open>0a0B\<close> has initialised the manifest in the locked state, and a
  state that shares nothing with it but the bucket: empty caches, no session storage.
\<close>

definition initializedWorld :: world where
  "initializedWorld =
     snd (initializeManifest refPlatform refConfig 5 6 refNonce ''0a0B'' lockedWorld)"

definition newTabWorld :: world where
  "newTabWorld =
     initializedWorld\<lparr>manifestCache := None, masterKeyCache := None, sessionStorage := None\<rparr>"

definition refBackup :: string where
  "refBackup =
     (case exportKeyPair refPlatform [1, 2] [3] ''ab'' ''cd'' (Some ''pw'') of
        Inr blob \<Rightarrow> blob | Inl e \<Rightarrow> [])"

section \<open>Lemmas\<close>

subsection \<open>Encodings\<close>

lemma utf8_decode_utf8: "utf8_decode (utf8 s) = s"
  unfolding utf8_def utf8_decode_def
  by (induction s) (simp_all add: unat_of_nat take_bit_nat_eq_self_iff)

lemma of_char_hexDigit:
  "n < 16 \<Longrightarrow> of_char (hexDigit n) = (if n < 10 then 48 + n else 87 + n)"
  unfolding hexDigit_def by (auto simp: nth_Cons')

lemma hexValue_hexDigit:
  assumes "n < 16"
  shows "hexValue (hexDigit n) = Some n"
  using assms by (simp add: hexValue_def of_char_hexDigit Let_def)

lemma unat_byte_less: "unat (b :: byte) < 256"
  using unsigned_less [of b, where ?'a = nat] by simp

lemma fromHex_toHex: "fromHex (toHex bs) = bs"
proof (induction bs)
  case Nil
  then show ?case by (simp add: toHex_def)
next
  case (Cons b bs)
  have h: "unat b div 16 < 16" using unat_byte_less [of b] by simp
  have l: "unat b mod 16 < 16" by simp
  have "toHex (b # bs) = hexDigit (unat b div 16) # hexDigit (unat b mod 16) # toHex bs"
    by (simp add: toHex_def byteToHex_def)
  then show ?case
    using Cons by (simp add: hexValue_hexDigit [OF h] hexValue_hexDigit [OF l])
qed

lemma truthy_Some [simp]: "truthy (Some s) = (s \<noteq> [])"
  by (simp add: truthy_def)

lemma truthy_None [simp]: "truthy None = False"
  by (simp add: truthy_def)





subsection \<open>The stand-in platform has the assumed properties\<close>

lemma decodeField_encodeField: "decodeField (encodeField v @ rest) = Some (v, rest)"
  by (cases v) (simp_all add: decodeField_def encodeField_def takeWhile_append Let_def)

lemma refParseKeys_refStringifyKeys: "refParseKeys (refStringifyKeys kd n) = Some kd"
  unfolding refParseKeys_def refStringifyKeys_def
  by (cases "encrypted kd")
     (simp_all add: decodeField_encodeField decodeField_encodeField [of _ "[]", simplified])

lemma refDecrypt_refEncrypt: "refDecrypt nonce k (refEncrypt nonce k d) = Some d"
  by (cases k) simp

lemma decodeInt_encodeInt: "decodeInt (encodeInt i @ rest) = Some (i, rest)"
  by (simp add: decodeInt_def encodeInt_def takeWhile_append Let_def)

lemma refParseManifest_empty:
  "refParseManifest (refStringifyManifest (createEmptyManifest a b))
     = Some (createEmptyManifest a b)"
  by (simp add: refParseManifest_def refStringifyManifest_def createEmptyManifest_def
      decodeInt_encodeInt)

lemma refPlatform_json: "jsonRoundTrips refPlatform"
  by (simp add: jsonRoundTrips_def refPlatform_def refParseKeys_refStringifyKeys)

lemma refPlatform_aead: "aeadOpens refPlatform"
  by (simp add: aeadOpens_def refPlatform_def refDecrypt_refEncrypt)

lemma refBackup_export:
  "exportKeyPair refPlatform [1, 2] [3] ''ab'' ''cd'' (Some ''pw'') = Inr refBackup"
  by (simp add: refBackup_def exportKeyPair_def refPlatform_def)

lemma refBackup_parse:
  "parseKeys refPlatform refBackup =
     Some \<lparr>encrypted = True, salt = Some ''0102'', iv = Some ''03'',
           data = Some (toHex (refEncrypt [3] (CryptoKey [112, 119, 1, 2])
                     (utf8 (refStringifyKeys (keyPairDoc ''ab'' ''cd'') 0)))),
           privateKey = None, publicKey = None\<rparr>"
proof -
  let ?doc = "\<lparr>encrypted = True, salt = Some ''0102'', iv = Some ''03'',
           data = Some (toHex (refEncrypt [3] (CryptoKey [112, 119, 1, 2])
                     (utf8 (refStringifyKeys (keyPairDoc ''ab'' ''cd'') 0)))),
           privateKey = None, publicKey = None\<rparr>"
  have e: "refBackup = stringifyKeys refPlatform ?doc 2"
    by (simp add: refBackup_def exportKeyPair_def refPlatform_def keyPairDoc_def toHex_def
        byteToHex_def hexDigit_def utf8_def)
  have "parseKeys refPlatform (stringifyKeys refPlatform ?doc 2) = Some ?doc"
    using refPlatform_json unfolding jsonRoundTrips_def by blast
  then show ?thesis unfolding e .
qed

lemma refWorld_unlocked:
  "manifestCache refWorld = Some refManifest" "masterKeyCache refWorld = Some refKey"
  "remote refWorld refConfig = Some refObjects"
  by (simp_all add: refWorld_def)

lemma refWorld_accepts: "sessionAccepts refWorld k v"
  by (simp add: sessionAccepts_def refWorld_def refArea_def)

subsection \<open>Sealing and uploading\<close>

lemma sessionAccepts_cong:
  "sessionStorage w' = sessionStorage w \<Longrightarrow> sessionAccepts w' k v = sessionAccepts w k v"
  by (simp add: sessionAccepts_def)

lemma saveToSessionCache_refused:
  "\<not> sessionAccepts w SESSION_CACHE_KEY (stringifyManifest P m) \<Longrightarrow>
   saveToSessionCache P m w = Inl QuotaExceededError"
  by (auto simp: saveToSessionCache_def sessionAccepts_def setItem_def split: option.splits)

lemma saveToSessionCache_accepted:
  "sessionAccepts w SESSION_CACHE_KEY (stringifyManifest P m) \<Longrightarrow>
   \<exists>w'. saveToSessionCache P m w = Inr w'"
  by (auto simp: saveToSessionCache_def sessionAccepts_def setItem_def split: option.splits)

lemma saveToSessionCache_Inr:
  assumes "saveToSessionCache P m w = Inr w'"
  shows "manifestCache w' = manifestCache w" and "masterKeyCache w' = masterKeyCache w"
    and "remote w' = remote w"
    and "sessionAccepts w' k v = sessionAccepts w k v"
  using assms
  by (auto simp: saveToSessionCache_def sessionAccepts_def setItem_def
      split: option.splits if_splits)

lemma markUnlocked_accepted:
  "sessionAccepts w SESSION_UNLOCKED_KEY ''true'' \<Longrightarrow> \<exists>w'. markUnlocked w = Inr w'"
  by (auto simp: markUnlocked_def sessionAccepts_def setItem_def split: option.splits)

lemma markUnlocked_Inr:
  assumes "markUnlocked w = Inr w'"
  shows "manifestCache w' = manifestCache w" and "masterKeyCache w' = masterKeyCache w"
    and "remote w' = remote w"
  using assms
  by (auto simp: markUnlocked_def setItem_def split: option.splits if_splits)

text \<open>
  What the three closing statements of a mutation do, whatever the storage and the session
  storage answer.
\<close>

lemma sealAndUpload_outcome:
  "\<exists>w'. sealAndUpload P c riv m k w =
           ((if remote w c = None then Inl TransportError
             else if sessionAccepts w SESSION_CACHE_KEY (stringifyManifest P m) then Inr ()
             else Inl QuotaExceededError), w')
       \<and> manifestCache w' = manifestCache w \<and> masterKeyCache w' = masterKeyCache w
       \<and> (\<forall>objs. remote w c = Some objs \<longrightarrow>
             remote w' c = Some (objs(MANIFEST_KEY \<mapsto> encryptManifest P riv m k)))"
proof (cases "remote w c")
  case None
  then show ?thesis by (simp add: sealAndUpload_def uploadToStorage_def)
next
  case (Some objs)
  define w1 where
    "w1 = w\<lparr>remote := (remote w)(c := Some (objs(MANIFEST_KEY \<mapsto> encryptManifest P riv m k)))\<rparr>"
  have up: "uploadToStorage c MANIFEST_KEY (encryptManifest P riv m k) w = Inr w1"
    using Some by (simp add: uploadToStorage_def w1_def)
  have acc: "sessionAccepts w1 SESSION_CACHE_KEY (stringifyManifest P m)
               = sessionAccepts w SESSION_CACHE_KEY (stringifyManifest P m)"
    by (rule sessionAccepts_cong) (simp add: w1_def)
  show ?thesis
  proof (cases "sessionAccepts w SESSION_CACHE_KEY (stringifyManifest P m)")
    case True
    with acc saveToSessionCache_accepted [of w1 P m] obtain w2 where
      sv: "saveToSessionCache P m w1 = Inr w2" by auto
    from saveToSessionCache_Inr(1-3) [OF sv] Some True up sv show ?thesis
      by (simp add: sealAndUpload_def w1_def)
  next
    case False
    with acc have "saveToSessionCache P m w1 = Inl QuotaExceededError"
      by (simp add: saveToSessionCache_refused)
    with Some False up show ?thesis
      by (simp add: sealAndUpload_def w1_def)
  qed
qed

lemma sealAndUpload_cache:
  "sealAndUpload P c riv m k w = (Inr u, w') \<Longrightarrow> manifestCache w' = manifestCache w"
  using sealAndUpload_outcome [of P c riv m k w] by auto

lemma sealAndUpload_stamp:
  assumes "sealAndUpload P c riv m' k (w\<lparr>manifestCache := Some m'\<rparr>) = (Inr u, w')"
  shows "manifestCache w' = Some m'"
  using sealAndUpload_cache [OF assms] by simp

subsection \<open>Initialising and unlocking\<close>

lemma decryptManifest_encryptManifest:
  assumes "aeadOpens P" and "length riv = 12"
    and "parseManifest P (stringifyManifest P m) = Some m"
  shows "decryptManifest P (encryptManifest P riv m k) k = Inr m"
  using assms
  by (simp add: decryptManifest_def encryptManifest_def aeadOpens_def utf8_decode_utf8 Let_def)

lemma initializeManifest_success:
  assumes "initializeManifest P c created updated riv K w = (Inr u, w')"
  shows "\<exists>key objs. deriveManifestKeyFromPrivateKey P K = Inr key
           \<and> masterKeyCache w' = Some key
           \<and> manifestCache w' = Some (createEmptyManifest created updated)
           \<and> remote w' c = Some (objs(MANIFEST_KEY \<mapsto>
                 encryptManifest P riv (createEmptyManifest created updated) key))"
proof -
  let ?m0 = "createEmptyManifest created updated"
  from assms obtain key where key: "deriveManifestKeyFromPrivateKey P K = Inr key"
    by (cases "deriveManifestKeyFromPrivateKey P K") (auto simp: initializeManifest_def)
  from assms key obtain objs where objs: "remote w c = Some objs"
    by (cases "remote w c") (auto simp: initializeManifest_def uploadToStorage_def Let_def)
  define w1 where
    "w1 = w\<lparr>remote := (remote w)(c := Some (objs(MANIFEST_KEY \<mapsto> encryptManifest P riv ?m0 key)))\<rparr>"
  define w2 where "w2 = w1\<lparr>manifestCache := Some ?m0, masterKeyCache := Some key\<rparr>"
  have up: "uploadToStorage c MANIFEST_KEY (encryptManifest P riv ?m0 key) w = Inr w1"
    using objs by (simp add: uploadToStorage_def w1_def)
  from assms key up obtain w3 where sv: "saveToSessionCache P ?m0 w2 = Inr w3"
    by (cases "saveToSessionCache P ?m0 w2")
       (auto simp: initializeManifest_def Let_def w2_def)
  from assms key up sv have mk: "markUnlocked w3 = Inr w'"
    by (cases "markUnlocked w3") (auto simp: initializeManifest_def Let_def w2_def)
  have "masterKeyCache w' = Some key" "manifestCache w' = Some ?m0"
    "remote w' c = Some (objs(MANIFEST_KEY \<mapsto> encryptManifest P riv ?m0 key))"
    using markUnlocked_Inr [OF mk] saveToSessionCache_Inr(1-3) [OF sv]
    by (simp_all add: w2_def w1_def)
  with key show ?thesis by blast
qed

lemma unlockManifest_success:
  assumes "unlockManifest P c K w = (Inr m, w')"
  shows "\<exists>key. deriveManifestKeyFromPrivateKey P K = Inr key
           \<and> masterKeyCache w' = Some key \<and> manifestCache w' = Some m"
proof -
  from assms obtain key where key: "deriveManifestKeyFromPrivateKey P K = Inr key"
    by (cases "deriveManifestKeyFromPrivateKey P K") (auto simp: unlockManifest_def)
  from assms key obtain enc where dl: "downloadFromStorage c MANIFEST_KEY w = Inr enc"
    by (cases "downloadFromStorage c MANIFEST_KEY w") (auto simp: unlockManifest_def)
  from assms key dl obtain m1 where dec: "decryptManifest P enc key = Inr m1"
    by (cases "decryptManifest P enc key") (auto simp: unlockManifest_def)
  define w2 where "w2 = w\<lparr>manifestCache := Some m1, masterKeyCache := Some key\<rparr>"
  from assms key dl dec obtain w3 where sv: "saveToSessionCache P m1 w2 = Inr w3"
    by (cases "saveToSessionCache P m1 w2") (auto simp: unlockManifest_def Let_def w2_def)
  from assms key dl dec sv have mk: "markUnlocked w3 = Inr w'" and m: "m1 = m"
    by (cases "markUnlocked w3"; auto simp: unlockManifest_def Let_def w2_def)+
  have "masterKeyCache w' = Some key" "manifestCache w' = Some m"
    using markUnlocked_Inr [OF mk] saveToSessionCache_Inr(1-3) [OF sv] m
    by (simp_all add: w2_def)
  with key show ?thesis by blast
qed

subsection \<open>Every mutation writes the clock reading to \<open>updatedAt\<close>\<close>

lemma addFile_stamp:
  "addFileToManifest P c now riv info w = (Inr u, w') \<Longrightarrow>
   \<exists>m'. manifestCache w' = Some m' \<and> updatedAt m' = now"
  by (auto simp: addFileToManifest_def Let_def split: option.splits dest!: sealAndUpload_stamp)

lemma removeFile_stamp:
  "removeFileFromManifest P c now riv fid w = (Inr u, w') \<Longrightarrow>
   \<exists>m'. manifestCache w' = Some m' \<and> updatedAt m' = now"
  by (auto simp: removeFileFromManifest_def Let_def split: option.splits
      dest!: sealAndUpload_stamp)

lemma removeFiles_stamp:
  "removeFilesFromManifest P c now riv ids w = (Inr u, w') \<Longrightarrow>
   \<exists>m'. manifestCache w' = Some m' \<and> updatedAt m' = now"
  by (auto simp: removeFilesFromManifest_def Let_def split: option.splits
      dest!: sealAndUpload_stamp)

lemma toggle_stamp:
  "toggleFileFavorite P c now riv fid w = (Inr b, w') \<Longrightarrow>
   \<exists>m'. manifestCache w' = Some m' \<and> updatedAt m' = now"
  by (auto simp: toggleFileFavorite_def Let_def split: option.splits sum.splits prod.splits
      dest!: sealAndUpload_stamp)

lemma createFolder_stamp:
  "createFolder P c newId created now riv n parent col w = (Inr g, w') \<Longrightarrow>
   \<exists>m'. manifestCache w' = Some m' \<and> updatedAt m' = now"
  by (auto simp: createFolder_def Let_def split: option.splits sum.splits prod.splits
      dest!: sealAndUpload_stamp)

lemma moveFile_stamp:
  "moveFileToFolder P c now riv fid target w = (Inr u, w') \<Longrightarrow>
   \<exists>m'. manifestCache w' = Some m' \<and> updatedAt m' = now"
  by (auto simp: moveFileToFolder_def Let_def split: option.splits dest!: sealAndUpload_stamp)

lemma moveFiles_stamp:
  "moveFilesToFolder P c now riv ids target w = (Inr u, w') \<Longrightarrow>
   \<exists>m'. manifestCache w' = Some m' \<and> updatedAt m' = now"
  by (auto simp: moveFilesToFolder_def Let_def split: option.splits dest!: sealAndUpload_stamp)

lemma deleteFolder_stamp:
  "deleteFolder P c now riv fid dc w = (Inr ids, w') \<Longrightarrow>
   \<exists>m'. manifestCache w' = Some m' \<and> updatedAt m' = now"
  by (auto simp: deleteFolder_def Let_def split: option.splits sum.splits prod.splits if_splits
      dest!: sealAndUpload_stamp)

lemma renameFolder_stamp:
  "renameFolder P c now riv fid n w = (Inr u, w') \<Longrightarrow>
   \<exists>m'. manifestCache w' = Some m' \<and> updatedAt m' = now"
  by (auto simp: renameFolder_def Let_def split: option.splits dest!: sealAndUpload_stamp)

lemma renameFile_stamp:
  "renameFile P c now riv fid n w = (Inr u, w') \<Longrightarrow>
   \<exists>m'. manifestCache w' = Some m' \<and> updatedAt m' = now"
  by (auto simp: renameFile_def Let_def split: option.splits dest!: sealAndUpload_stamp)

text \<open>
  The copy loop leaves \<open>updatedAt\<close> alone, only ever extends the list of new identifiers,
  and changes nothing when it extends it by none.
\<close>

lemma copyLoop_inv:
  "copyLoop c target draw i ids acc w = (Inr out, w') \<Longrightarrow> manifestCache w = Some m \<Longrightarrow>
   \<exists>m'. manifestCache w' = Some m' \<and> updatedAt m' = updatedAt m
        \<and> length acc \<le> length out \<and> (length out = length acc \<longrightarrow> w' = w \<and> out = acc)"
proof (induction ids arbitrary: i acc w m)
  case Nil
  then show ?case by simp
next
  case (Cons fid rest)
  show ?case
  proof (cases "find (\<lambda>f. fileId f = fid) (files m)")
    case None
    with Cons.prems have "copyLoop c target draw (Suc i) rest acc w = (Inr out, w')" by simp
    from Cons.IH [OF this Cons.prems(2)] show ?thesis .
  next
    case (Some orig)
    from Cons.prems Some obtain enc where
      dl: "downloadFromStorage c (''files/'' @ fid) w = Inr enc"
      by (cases "downloadFromStorage c (''files/'' @ fid) w") auto
    from Cons.prems Some dl obtain w1 where
      ul: "uploadToStorage c (''files/'' @ fst (draw i)) enc w = Inr w1"
      by (cases "uploadToStorage c (''files/'' @ fst (draw i)) enc w") (auto simp: Let_def)
    define newFile where "newFile = orig
                                \<lparr>fileId := fst (draw i),
                                 folderId := target,
                                 uploadedAt := snd (draw i),
                                 fileName := (if target = folderId orig
                                              then addCopySuffix (fileName orig)
                                              else fileName orig)\<rparr>"
    define w2 where "w2 = w1\<lparr>manifestCache := Some (m\<lparr>files := files m @ [newFile]\<rparr>)\<rparr>"
    have rec: "copyLoop c target draw (Suc i) rest (acc @ [fst (draw i)]) w2 = (Inr out, w')"
      using Cons.prems Some dl ul by (simp add: Let_def w2_def newFile_def)
    have c2: "manifestCache w2 = Some (m\<lparr>files := files m @ [newFile]\<rparr>)"
      by (simp add: w2_def)
    from Cons.IH [OF rec c2] show ?thesis by auto
  qed
qed

lemma copyFiles_stamp:
  assumes "copyFilesToFolder P c draw now riv ids target w = (Inr out, w')"
    and "manifestCache w = Some m"
  shows "\<exists>m'. manifestCache w' = Some m'
            \<and> (if out = [] then w' = w else updatedAt m' = now)"
proof -
  from assms obtain k where k: "masterKeyCache w = Some k"
    by (auto simp: copyFilesToFolder_def split: option.splits)
  from assms k obtain out1 w1 where
    loop: "copyLoop c target draw 0 ids [] w = (Inr out1, w1)"
    by (cases "copyLoop c target draw 0 ids [] w")
       (auto simp: copyFilesToFolder_def split: sum.splits)
  from copyLoop_inv [OF loop assms(2)] obtain m1 where
    m1: "manifestCache w1 = Some m1" "out1 = [] \<longrightarrow> w1 = w" by auto
  show ?thesis
  proof (cases "out1 = []")
    case True
    with assms k loop m1 show ?thesis by (simp add: copyFilesToFolder_def)
  next
    case False
    with assms k loop m1 show ?thesis
      by (auto simp: copyFilesToFolder_def Let_def split: sum.splits prod.splits
          dest!: sealAndUpload_stamp)
  qed
qed

lemma returning_Inr:
  "returning g r = (Inr y, w') \<Longrightarrow> \<exists>x. r = (Inr x, w') \<and> y = g x"
  by (auto simp: returning_def split: prod.splits sum.splits)

subsection \<open>Lookup by identifier\<close>

lemma find_map_reparent:
  "find (\<lambda>f. fileId f = x) (map (reparent F) fs)
     = map_option (reparent F) (find (\<lambda>f. fileId f = x) fs)"
  by (induction fs) (auto simp: reparent_def)

lemma find_first_same_id:
  "f \<in> set fs \<Longrightarrow>
   \<exists>g. find (\<lambda>h. fileId h = fileId f) fs = Some g \<and> fileId g = fileId f \<and> g \<in> set fs"
  by (induction fs) auto

lemma find_distinct:
  "distinct (map fileId fs) \<Longrightarrow> f \<in> set fs \<Longrightarrow> find (\<lambda>h. fileId h = fileId f) fs = Some f"
  by (induction fs) (auto simp: image_iff)

section \<open>The claims\<close>

subsection \<open>C1: a failed sync\<close>

text \<open>
  Claim C1, as the code has it. With a master key cached, a \<^verbatim>\<open>syncManifest\<close> whose download
  fails, or whose decryption (the JSON parse included) fails, does not raise: it returns
  \<^verbatim>\<open>null\<close>, and the whole state, the cached manifest and the session cache included, is as
  it was. It does not return the previous manifest.
\<close>

theorem syncManifest_soft_fail:
  assumes "masterKeyCache w = Some k"
    and "(\<exists>e. downloadFromStorage c MANIFEST_KEY w = Inl e)
         \<or> (\<exists>enc e. downloadFromStorage c MANIFEST_KEY w = Inr enc
                    \<and> decryptManifest P enc k = Inl e)"
  shows "syncManifest P c w = (None, w)"
  using assms by (auto simp: syncManifest_def)

text \<open>
  C1 at a concrete input: the state is unlocked with a manifest of three files, and the
  storage is unreachable.
\<close>

theorem syncManifest_soft_fail_witness:
  "masterKeyCache offlineWorld = Some refKey
   \<and> downloadFromStorage refConfig MANIFEST_KEY offlineWorld = Inl TransportError
   \<and> syncManifest refPlatform refConfig offlineWorld = (None, offlineWorld)"
proof -
  have k: "masterKeyCache offlineWorld = Some refKey"
    by (simp add: offlineWorld_def refWorld_def)
  have d: "downloadFromStorage refConfig MANIFEST_KEY offlineWorld = Inl TransportError"
    by (simp add: downloadFromStorage_def offlineWorld_def)
  have "(\<exists>e. downloadFromStorage refConfig MANIFEST_KEY offlineWorld = Inl e)
         \<or> (\<exists>enc e. downloadFromStorage refConfig MANIFEST_KEY offlineWorld = Inr enc
                    \<and> decryptManifest refPlatform enc refKey = Inl e)"
    using d by simp
  from syncManifest_soft_fail [OF k this] k d show ?thesis by simp
qed

text \<open>
  C1 as the spec words it fails: here a manifest is cached, the download fails, and the
  value returned is \<^verbatim>\<open>null\<close>, not the cached manifest.
\<close>

theorem syncManifest_returns_null_not_previous:
  "masterKeyCache offlineWorld = Some refKey
   \<and> manifestCache offlineWorld = Some refManifest
   \<and> downloadFromStorage refConfig MANIFEST_KEY offlineWorld = Inl TransportError
   \<and> fst (syncManifest refPlatform refConfig offlineWorld) = None
   \<and> fst (syncManifest refPlatform refConfig offlineWorld) \<noteq> manifestCache offlineWorld"
  by (simp add: syncManifest_def downloadFromStorage_def offlineWorld_def refWorld_def)

subsection \<open>C2: when an import reports a wrong password\<close>

text \<open>
  Claim C2, as the code has it. \<^verbatim>\<open>importKeyPair\<close> fails with
  \<^verbatim>\<open>'Failed to decrypt keys. Wrong password?'\<close> exactly when the document is marked
  encrypted, a non-empty password is supplied, the three hexadecimal properties are present,
  and the decryption rejects (the tag check) or its result is not JSON. A document marked
  encrypted that is imported with no password, or with the empty one, and that carries no
  key pair in the clear, fails with \<^verbatim>\<open>'Invalid key file format'\<close>.
\<close>

theorem importKeyPair_wrong_password_iff:
  "(importKeyPair P blob password = Inl (Error ''Failed to decrypt keys. Wrong password?'')) =
     (\<exists>kd s i d km. parseKeys P blob = Some kd \<and> encrypted kd \<and> truthy password
        \<and> salt kd = Some s \<and> iv kd = Some i \<and> data kd = Some d
        \<and> importKey P PBKDF2 (utf8 (the password)) = Some km
        \<and> (case decrypt P (fromHex i)
                   (deriveKey P (PBKDF2_params (fromHex s) 100000 SHA_256) km 256) (fromHex d) of
              None \<Rightarrow> True
            | Some decrypted \<Rightarrow> parseKeys P (utf8_decode decrypted) = None))
   \<and> (\<forall>kd. parseKeys P blob = Some kd \<and> encrypted kd \<and> \<not> truthy password
          \<and> \<not> (truthy (privateKey kd) \<and> truthy (publicKey kd))
        \<longrightarrow> importKeyPair P blob password = Inl (Error ''Invalid key file format''))"
  by (auto simp: importKeyPair_def Let_def split: option.splits)

text \<open>
  C2 at a concrete input: the export of the pair \<open>(ab, cd)\<close> under the password \<open>pw\<close>,
  imported with the password \<open>no\<close>, with the empty password and with none.
\<close>

theorem importKeyPair_wrong_password_witness:
  "importKeyPair refPlatform refBackup (Some ''no'')
     = Inl (Error ''Failed to decrypt keys. Wrong password?'')
   \<and> importKeyPair refPlatform refBackup (Some []) = Inl (Error ''Invalid key file format'')
   \<and> importKeyPair refPlatform refBackup None = Inl (Error ''Invalid key file format'')"
proof -
  have 1: "importKeyPair refPlatform refBackup (Some ''no'')
             = Inl (Error ''Failed to decrypt keys. Wrong password?'')"
    using importKeyPair_wrong_password_iff [of refPlatform refBackup "Some ''no''"]
    by (simp add: refBackup_parse)
       (simp add: refPlatform_def fromHex_toHex hexValue_def utf8_def)
  have 2: "importKeyPair refPlatform refBackup (Some []) = Inl (Error ''Invalid key file format'')"
    using importKeyPair_wrong_password_iff [of refPlatform refBackup "Some []"]
    by (simp add: refBackup_parse)
  have 3: "importKeyPair refPlatform refBackup None = Inl (Error ''Invalid key file format'')"
    using importKeyPair_wrong_password_iff [of refPlatform refBackup None]
    by (simp add: refBackup_parse)
  from 1 2 3 show ?thesis by simp
qed

text \<open>
  C2 as the spec words it fails: a password-encrypted export imported with no password does
  not fail with the wrong-password error but with \<^verbatim>\<open>'Invalid key file format'\<close>.
\<close>

theorem importKeyPair_no_password_invalid_format:
  "exportKeyPair refPlatform [1, 2] [3] ''ab'' ''cd'' (Some ''pw'') = Inr refBackup
   \<and> importKeyPair refPlatform refBackup None = Inl (Error ''Invalid key file format'')
   \<and> importKeyPair refPlatform refBackup None
       \<noteq> Inl (Error ''Failed to decrypt keys. Wrong password?'')"
  by (simp add: refBackup_export importKeyPair_def refBackup_parse)

subsection \<open>C3: \<open>updatedAt\<close> after a mutation\<close>

text \<open>
  Claim C3, as the code has it. After every successful mutation of an unlocked manifest the
  manifest is still cached and its \<open>updatedAt\<close> is the clock reading the call took, so it is
  strictly greater than before whenever that reading is later than the previous \<open>updatedAt\<close>.
  The one exception is a \<^verbatim>\<open>copyFilesToFolder\<close> that copied no file: it leaves the state,
  \<open>updatedAt\<close> included, as it was.
\<close>

theorem mutate_stamps_updatedAt:
  assumes "manifestCache w = Some m" and "mutate P c d op w = (Inr r, w')"
  shows "\<exists>m'. manifestCache w' = Some m'
           \<and> (if copiedNothing op r then w' = w else updatedAt m' = d_now d)
           \<and> (updatedAt m < d_now d \<and> \<not> copiedNothing op r \<longrightarrow> updatedAt m < updatedAt m')"
proof -
  have "\<exists>m'. manifestCache w' = Some m'
           \<and> (if copiedNothing op r then w' = w else updatedAt m' = d_now d)"
  proof (cases op)
    case (CopyFiles ids target)
    with assms(2) obtain out where
      "copyFilesToFolder P c (d_copy d) (d_now d) (d_iv d) ids target w = (Inr out, w')"
      "r = DoneIds out"
      by (auto dest!: returning_Inr)
    with copyFiles_stamp [OF this(1) assms(1)] CopyFiles show ?thesis
      by (simp add: copiedNothing_def)
  qed (use assms(2) in \<open>auto simp: copiedNothing_def dest!: returning_Inr
        dest: addFile_stamp removeFile_stamp removeFiles_stamp toggle_stamp createFolder_stamp
          moveFile_stamp moveFiles_stamp deleteFolder_stamp renameFolder_stamp renameFile_stamp\<close>)
  then show ?thesis using assms(1) by auto
qed

text \<open>
  C3 at a concrete input: renaming a file at clock reading 50 in a manifest last updated
  at 30.
\<close>

theorem mutate_stamps_updatedAt_witness:
  "manifestCache refWorld = Some refManifest
   \<and> fst (mutate refPlatform refConfig refDraws (RenameFile ''f1'' ''z.txt'') refWorld) = Inr Done
   \<and> map_option updatedAt (manifestCache (snd (mutate refPlatform refConfig refDraws
         (RenameFile ''f1'' ''z.txt'') refWorld))) = Some 50
   \<and> updatedAt refManifest < 50"
proof -
  obtain w' where run:
    "mutate refPlatform refConfig refDraws (RenameFile ''f1'' ''z.txt'') refWorld = (Inr Done, w')"
    by (simp add: renameFile_def returning_def sealAndUpload_def uploadToStorage_def
        saveToSessionCache_def setItem_def refWorld_def refArea_def refManifest_def
        refFile_def Let_def)
  have d: "d_now refDraws = 50" by (simp add: refDraws_def)
  have u: "updatedAt refManifest = 30" by (simp add: refManifest_def)
  from mutate_stamps_updatedAt [OF refWorld_unlocked(1) run] show ?thesis
    using run refWorld_unlocked(1) by (auto simp: copiedNothing_def d u)
qed

text \<open>
  C3 as the spec words it fails: a file added at the clock reading 30 to a manifest whose
  \<open>updatedAt\<close> is 30 (the same millisecond) succeeds and leaves \<open>updatedAt\<close> at 30.
\<close>

theorem addFile_same_clock_reading:
  "manifestCache refWorld = Some refManifest
   \<and> fst (addFileToManifest refPlatform refConfig 30 [0] (refFile ''f4'' ''d'' None 30) refWorld)
       = Inr ()
   \<and> map_option updatedAt (manifestCache (snd (addFileToManifest refPlatform refConfig 30 [0]
         (refFile ''f4'' ''d'' None 30) refWorld))) = Some 30
   \<and> updatedAt refManifest = 30"
  by (simp add: addFileToManifest_def sealAndUpload_def uploadToStorage_def
      saveToSessionCache_def setItem_def refWorld_def refArea_def refManifest_def Let_def)

subsection \<open>C4: copying a file into its own folder\<close>




subsection \<open>C5: deleting a folder and keeping its files\<close>

text \<open>
  Claim C5. On an unlocked manifest with a folder list, \<^verbatim>\<open>deleteFolder(F, false)\<close> deletes
  no file. It returns the empty list when the storage is reachable and the session storage
  takes the write, and fails with the transport error or with the exception of the session
  storage otherwise; in every case the cached manifest afterwards is this: the folder list
  has lost the folders whose identifier is \<open>F\<close>, every file whose \<open>folderId\<close> is \<open>F\<close> has it
  cleared, the file identifiers are the same list as before, and for every former member of
  \<open>F\<close> the lookup by its \<open>fileId\<close> returns an entry with that identifier: the member itself,
  moved to the root, when identifiers are unique.
\<close>

theorem deleteFolder_keeps_files:
  assumes "manifestCache w = Some m" and "masterKeyCache w = Some k"
    and "folders m = Some fs"
  shows "\<exists>r w' m'. deleteFolder P c now riv F False w = (r, w')
           \<and> r = (if remote w c = None then Inl TransportError
                  else if sessionAccepts w SESSION_CACHE_KEY (stringifyManifest P m')
                  then Inr [] else Inl QuotaExceededError)
           \<and> manifestCache w' = Some m'
           \<and> folders m' = Some (filter (\<lambda>g. f_id g \<noteq> F) fs)
           \<and> files m' = map (\<lambda>f. if folderId f = Some F then f\<lparr>folderId := None\<rparr> else f)
                          (files m)
           \<and> map fileId (files m') = map fileId (files m)
           \<and> (\<forall>f \<in> set (files m). folderId f = Some F \<longrightarrow>
                 (\<exists>g. fst (getFileFromManifest P (fileId f) w') = Some g
                      \<and> fileId g = fileId f \<and> g \<in> set (files m')
                      \<and> (distinct (map fileId (files m)) \<longrightarrow> g = f\<lparr>folderId := None\<rparr>)))"
proof -
  let ?fs' = "map (reparent F) (files m)"
  let ?m' = "m\<lparr>files := ?fs', folders := Some (filter (\<lambda>g. f_id g \<noteq> F) fs),
               updatedAt := now\<rparr>"
  let ?w1 = "w\<lparr>manifestCache := Some ?m'\<rparr>"
  let ?r = "if remote w c = None then Inl TransportError
            else if sessionAccepts w SESSION_CACHE_KEY (stringifyManifest P ?m')
            then Inr [] else (Inl QuotaExceededError :: error + string list)"
  have a1: "sessionAccepts ?w1 SESSION_CACHE_KEY (stringifyManifest P ?m')
              = sessionAccepts w SESSION_CACHE_KEY (stringifyManifest P ?m')"
    by (rule sessionAccepts_cong) simp
  from sealAndUpload_outcome [of P c riv ?m' k ?w1] a1 obtain w' where
    seal: "sealAndUpload P c riv ?m' k ?w1 =
             ((if remote w c = None then Inl TransportError
               else if sessionAccepts w SESSION_CACHE_KEY (stringifyManifest P ?m') then Inr ()
               else Inl QuotaExceededError), w')"
    and cache: "manifestCache w' = Some ?m'"
    by auto
  have run: "deleteFolder P c now riv F False w = (?r, w')"
    using assms seal
    by (simp add: deleteFolder_def reparent_def [abs_def] Let_def)
  have ids: "map fileId ?fs' = map fileId (files m)"
    by (simp add: reparent_def)
  have retr: "\<exists>g. fst (getFileFromManifest P (fileId f) w') = Some g
                \<and> fileId g = fileId f \<and> g \<in> set ?fs'
                \<and> (distinct (map fileId (files m)) \<longrightarrow> g = f\<lparr>folderId := None\<rparr>)"
    if f: "f \<in> set (files m)" and inF: "folderId f = Some F" for f
  proof -
    have get: "fst (getFileFromManifest P (fileId f) w')
                 = find (\<lambda>h. fileId h = fileId f) ?fs'"
      using cache by (simp add: getFileFromManifest_def getManifest_def)
    from find_first_same_id [OF f] obtain g0 where
      g0: "find (\<lambda>h. fileId h = fileId f) (files m) = Some g0" "fileId g0 = fileId f"
        "g0 \<in> set (files m)"
      by blast
    have fnd: "find (\<lambda>h. fileId h = fileId f) ?fs' = Some (reparent F g0)"
      by (simp add: find_map_reparent g0(1))
    have "fileId (reparent F g0) = fileId f" using g0(2) by (simp add: reparent_def)
    moreover have "reparent F g0 \<in> set ?fs'" using g0(3) by simp
    moreover have "distinct (map fileId (files m)) \<longrightarrow> reparent F g0 = f\<lparr>folderId := None\<rparr>"
    proof
      assume "distinct (map fileId (files m))"
      from find_distinct [OF this f] g0(1) have "g0 = f" by simp
      then show "reparent F g0 = f\<lparr>folderId := None\<rparr>" using inF by (simp add: reparent_def)
    qed
    ultimately show ?thesis using get fnd by simp
  qed
  show ?thesis
    apply (rule exI [of _ ?r], rule exI [of _ w'], rule exI [of _ ?m'])
    using run cache ids retr by (simp add: reparent_def [abs_def])
qed

text \<open>
  C5 at a concrete input: folder \<open>F\<close> holds \<open>f1\<close>, its subfolder \<open>G\<close> holds \<open>f3\<close>, and
  \<open>f2\<close> is at the root.
\<close>

theorem deleteFolder_keeps_files_witness:
  "fst (deleteFolder refPlatform refConfig 50 [0] ''F'' False refWorld) = Inr []
   \<and> map_option (\<lambda>m. map (\<lambda>f. (fileId f, folderId f)) (files m))
        (manifestCache (snd (deleteFolder refPlatform refConfig 50 [0] ''F'' False refWorld)))
       = Some [(''f1'', None), (''f2'', None), (''f3'', Some ''G'')]
   \<and> map_option (\<lambda>m. map_option (map f_id) (folders m))
        (manifestCache (snd (deleteFolder refPlatform refConfig 50 [0] ''F'' False refWorld)))
       = Some (Some [''G''])"
proof -
  have fo: "folders refManifest
      = Some [refFolder ''F'' ''Docs'' None, refFolder ''G'' ''Sub'' (Some ''F'')]"
    by (simp add: refManifest_def)
  from deleteFolder_keeps_files [OF refWorld_unlocked(1,2) fo,
      of refPlatform refConfig 50 "[0]" "''F''"]
  show ?thesis
    by (auto simp: refManifest_def refFile_def refFolder_def refWorld_accepts
        refWorld_unlocked(3))
qed

subsection \<open>C6: the backup round trip\<close>

text \<open>
  Claim C6. On a platform whose JSON codec round-trips and whose AES-GCM opens what it
  sealed, whatever salt and nonce are drawn: if \<^verbatim>\<open>exportKeyPair\<close> of a pair under the
  password \<open>pw\<close> returns a backup, then \<^verbatim>\<open>importKeyPair\<close> of that backup with \<open>pw\<close> returns
  the pair. The password is not empty, or else (the export is then the plain document)
  neither key is.
\<close>

theorem export_import_roundtrip:
  assumes js: "jsonRoundTrips P" and ae: "aeadOpens P"
    and nonempty: "pw \<noteq> [] \<or> (priv \<noteq> [] \<and> pub \<noteq> [])"
    and ex: "exportKeyPair P rsalt riv priv pub (Some pw) = Inr blob"
  shows "importKeyPair P blob (Some pw) = Inr (keyPairDoc priv pub)"
proof (cases "pw = []")
  case True
  with ex have "blob = stringifyKeys P (keyPairDoc priv pub) 2"
    by (simp add: exportKeyPair_def keyPairDoc_def)
  moreover from True nonempty have "priv \<noteq> []" "pub \<noteq> []" by auto
  ultimately show ?thesis
    using js True by (simp add: importKeyPair_def jsonRoundTrips_def keyPairDoc_def)
next
  case False
  from ex False obtain km where km: "importKey P PBKDF2 (utf8 pw) = Some km"
    by (auto simp: exportKeyPair_def split: option.splits)
  define dk where "dk = deriveKey P (PBKDF2_params rsalt 100000 SHA_256) km 256"
  define ct where "ct = encrypt P riv dk (utf8 (stringifyKeys P (keyPairDoc priv pub) 0))"
  define doc where "doc = \<lparr>encrypted = True, salt = Some (toHex rsalt), iv = Some (toHex riv),
       data = Some (toHex ct), privateKey = None, publicKey = None\<rparr>"
  from ex False km have blob: "blob = stringifyKeys P doc 2"
    by (simp add: exportKeyPair_def keyPairDoc_def dk_def ct_def doc_def Let_def)
  have p: "parseKeys P blob = Some doc"
    using js by (simp add: blob jsonRoundTrips_def)
  have d: "decrypt P riv dk ct = Some (utf8 (stringifyKeys P (keyPairDoc priv pub) 0))"
    using ae by (simp add: ct_def aeadOpens_def)
  have q: "parseKeys P (stringifyKeys P (keyPairDoc priv pub) 0) = Some (keyPairDoc priv pub)"
    using js by (simp add: jsonRoundTrips_def)
  show ?thesis
    using False km
    by (simp add: importKeyPair_def p doc_def fromHex_toHex dk_def [symmetric] d
        utf8_decode_utf8 q)
qed

text \<open>C6 at a concrete input: the pair \<open>(ab, cd)\<close> under the password \<open>pw\<close>.\<close>

theorem export_import_roundtrip_witness:
  "jsonRoundTrips refPlatform \<and> aeadOpens refPlatform
   \<and> exportKeyPair refPlatform [1, 2] [3] ''ab'' ''cd'' (Some ''pw'') = Inr refBackup
   \<and> importKeyPair refPlatform refBackup (Some ''pw'') = Inr (keyPairDoc ''ab'' ''cd'')"
proof -
  have ne: "''pw'' \<noteq> [] \<or> (''ab'' \<noteq> [] \<and> ''cd'' \<noteq> [])" by simp
  from export_import_roundtrip [OF refPlatform_json refPlatform_aead ne refBackup_export]
  show ?thesis using refPlatform_json refPlatform_aead refBackup_export by simp
qed

subsection \<open>C7: the master key is a function of the private key\<close>

text \<open>
  Claim C7. \<^verbatim>\<open>deriveManifestKeyFromPrivateKey\<close> of \<open>K\<close> is the HKDF-SHA-256 derivation of a
  256-bit key from the bytes of \<open>K\<close>, with sixteen zero bytes as salt and the fixed context
  string \<open>manifest-encryption\<close>; it takes no random draw and reads no state. Two independent
  calls agree: whenever \<^verbatim>\<open>initializeManifest\<close> with \<open>K\<close> succeeds in one state, under any
  configuration, clock readings and nonce, and \<^verbatim>\<open>unlockManifest\<close> with \<open>K\<close> succeeds in any
  other state, both leave the same master key in the cache, the one derived from \<open>K\<close>. And
  nothing but \<open>K\<close> is needed: after a successful \<^verbatim>\<open>initializeManifest\<close>, \<^verbatim>\<open>unlockManifest\<close>
  with \<open>K\<close> in any state that shares only the bucket with the first one (and whose session
  storage takes the two writes) succeeds, returns the manifest that was sealed and caches
  the same key, on a platform whose AES-GCM opens what it sealed and whose JSON codec
  round-trips that manifest.
\<close>

theorem deriveManifestKey_deterministic:
  "deriveManifestKeyFromPrivateKey P K =
     (case importKey P HKDF (fromHex K) of
        None \<Rightarrow> Inl (Error ''Failed to derive manifest key from private key'')
      | Some keyMaterial \<Rightarrow>
          Inr (deriveKey P (HKDF_params SHA_256 (replicate 16 0) (utf8 ''manifest-encryption''))
                 keyMaterial 256))
   \<and> (initializeManifest P c created updated riv K wa = (Inr (), wa')
        \<and> unlockManifest P cb K wb = (Inr m, wb')
      \<longrightarrow> masterKeyCache wa' = masterKeyCache wb'
          \<and> (\<exists>key. masterKeyCache wa' = Some key
                   \<and> deriveManifestKeyFromPrivateKey P K = Inr key))
   \<and> (initializeManifest P c created updated riv K wa = (Inr (), wa')
        \<and> length riv = 12 \<and> aeadOpens P
        \<and> parseManifest P (stringifyManifest P (createEmptyManifest created updated))
            = Some (createEmptyManifest created updated)
        \<and> remote wc c = remote wa' c
        \<and> sessionAccepts wc SESSION_CACHE_KEY (stringifyManifest P (createEmptyManifest created updated))
        \<and> sessionAccepts wc SESSION_UNLOCKED_KEY ''true''
      \<longrightarrow> (\<exists>wc'. unlockManifest P c K wc = (Inr (createEmptyManifest created updated), wc')
                 \<and> masterKeyCache wc' = masterKeyCache wa'))"
proof (intro conjI impI)
  show "deriveManifestKeyFromPrivateKey P K =
     (case importKey P HKDF (fromHex K) of
        None \<Rightarrow> Inl (Error ''Failed to derive manifest key from private key'')
      | Some keyMaterial \<Rightarrow>
          Inr (deriveKey P (HKDF_params SHA_256 (replicate 16 0) (utf8 ''manifest-encryption''))
                 keyMaterial 256))"
    by (simp add: deriveManifestKeyFromPrivateKey_def Let_def split: option.splits)
next
  assume a: "initializeManifest P c created updated riv K wa = (Inr (), wa')
        \<and> unlockManifest P cb K wb = (Inr m, wb')"
  from initializeManifest_success [of P c created updated riv K wa "()" wa'] a obtain key where
    i: "deriveManifestKeyFromPrivateKey P K = Inr key" "masterKeyCache wa' = Some key"
    by auto
  from unlockManifest_success [of P cb K wb m wb'] a obtain key' where
    u: "deriveManifestKeyFromPrivateKey P K = Inr key'" "masterKeyCache wb' = Some key'"
    by auto
  from i u show "masterKeyCache wa' = masterKeyCache wb'" by simp
  from i show "\<exists>key. masterKeyCache wa' = Some key
                   \<and> deriveManifestKeyFromPrivateKey P K = Inr key" by simp
next
  let ?m0 = "createEmptyManifest created updated"
  assume a: "initializeManifest P c created updated riv K wa = (Inr (), wa')
        \<and> length riv = 12 \<and> aeadOpens P
        \<and> parseManifest P (stringifyManifest P ?m0) = Some ?m0
        \<and> remote wc c = remote wa' c
        \<and> sessionAccepts wc SESSION_CACHE_KEY (stringifyManifest P ?m0)
        \<and> sessionAccepts wc SESSION_UNLOCKED_KEY ''true''"
  from initializeManifest_success [of P c created updated riv K wa "()" wa'] a obtain key objs where
    i: "deriveManifestKeyFromPrivateKey P K = Inr key" "masterKeyCache wa' = Some key"
      "remote wa' c = Some (objs(MANIFEST_KEY \<mapsto> encryptManifest P riv ?m0 key))"
    by auto
  have dl: "downloadFromStorage c MANIFEST_KEY wc = Inr (encryptManifest P riv ?m0 key)"
    using a i(3) by (simp add: downloadFromStorage_def)
  have dec: "decryptManifest P (encryptManifest P riv ?m0 key) key = Inr ?m0"
    using a by (simp add: decryptManifest_encryptManifest)
  define w4 where "w4 = wc\<lparr>manifestCache := Some ?m0, masterKeyCache := Some key\<rparr>"
  have "sessionAccepts w4 SESSION_CACHE_KEY (stringifyManifest P ?m0)"
    using a by (simp add: sessionAccepts_def w4_def)
  from saveToSessionCache_accepted [OF this] obtain w5 where
    sv: "saveToSessionCache P ?m0 w4 = Inr w5" by auto
  have "sessionAccepts w5 SESSION_UNLOCKED_KEY ''true''"
    using a saveToSessionCache_Inr(4) [OF sv] by (simp add: sessionAccepts_def w4_def)
  from markUnlocked_accepted [OF this] obtain w6 where
    mk: "markUnlocked w5 = Inr w6" by auto
  have run: "unlockManifest P c K wc = (Inr ?m0, w6)"
    using i(1) dl dec sv mk by (simp add: unlockManifest_def Let_def w4_def)
  have "masterKeyCache w6 = Some key"
    using markUnlocked_Inr(2) [OF mk] saveToSessionCache_Inr(2) [OF sv] by (simp add: w4_def)
  with run i(2)
  show "\<exists>wc'. unlockManifest P c K wc = (Inr ?m0, wc') \<and> masterKeyCache wc' = masterKeyCache wa'"
    by simp
qed

text \<open>
  C7 at a concrete input: the key \<open>0a0B\<close> initialises the manifest in a locked state with
  an empty bucket; a second state, with empty caches and no session storage, shares only the
  bucket, and unlocks with \<open>0a0B\<close>.
\<close>

theorem deriveManifestKey_deterministic_witness:
  "fst (initializeManifest refPlatform refConfig 5 6 refNonce ''0a0B'' lockedWorld) = Inr ()
   \<and> fst (unlockManifest refPlatform refConfig ''0a0B'' newTabWorld)
       = Inr (createEmptyManifest 5 6)
   \<and> masterKeyCache (snd (unlockManifest refPlatform refConfig ''0a0B'' newTabWorld))
       = masterKeyCache initializedWorld
   \<and> masterKeyCache initializedWorld
       = Some (CryptoKey ([10, 11] @ replicate 16 0 @ utf8 ''manifest-encryption''))
   \<and> deriveManifestKeyFromPrivateKey refPlatform ''0a0B''
       \<noteq> deriveManifestKeyFromPrivateKey refPlatform ''0a0C''"
proof -
  obtain u where run:
    "initializeManifest refPlatform refConfig 5 6 refNonce ''0a0B'' lockedWorld
       = (Inr u, initializedWorld)"
    by (simp add: initializedWorld_def initializeManifest_def deriveManifestKeyFromPrivateKey_def
        uploadToStorage_def saveToSessionCache_def markUnlocked_def setItem_def lockedWorld_def
        refArea_def refPlatform_def Let_def)
  have run': "initializeManifest refPlatform refConfig 5 6 refNonce ''0a0B'' lockedWorld
       = (Inr (), initializedWorld)"
    using run by simp
  have n: "length refNonce = 12" by (simp add: refNonce_def)
  have p: "parseManifest refPlatform (stringifyManifest refPlatform (createEmptyManifest 5 6))
             = Some (createEmptyManifest 5 6)"
    by (simp add: refPlatform_def refParseManifest_empty)
  have r: "remote newTabWorld refConfig = remote initializedWorld refConfig"
    by (simp add: newTabWorld_def)
  have s: "sessionAccepts newTabWorld SESSION_CACHE_KEY
             (stringifyManifest refPlatform (createEmptyManifest 5 6))"
    "sessionAccepts newTabWorld SESSION_UNLOCKED_KEY ''true''"
    by (simp_all add: newTabWorld_def sessionAccepts_def)
  have key: "deriveManifestKeyFromPrivateKey refPlatform ''0a0B''
      = Inr (CryptoKey ([10, 11] @ replicate 16 0 @ utf8 ''manifest-encryption''))"
    by (simp add: deriveManifestKeyFromPrivateKey_def refPlatform_def hexValue_def Let_def)
  have key': "deriveManifestKeyFromPrivateKey refPlatform ''0a0C''
      = Inr (CryptoKey ([10, 12] @ replicate 16 0 @ utf8 ''manifest-encryption''))"
    by (simp add: deriveManifestKeyFromPrivateKey_def refPlatform_def hexValue_def Let_def)
  note det = deriveManifestKey_deterministic [where P = refPlatform and K = "''0a0B''"
      and c = refConfig and created = 5 and updated = 6 and riv = refNonce
      and wa = lockedWorld and wa' = initializedWorld and wc = newTabWorld]
  from det [THEN conjunct2, THEN conjunct2] run' n refPlatform_aead p r s
  obtain wc' where unlock:
    "unlockManifest refPlatform refConfig ''0a0B'' newTabWorld
       = (Inr (createEmptyManifest 5 6), wc')"
    "masterKeyCache wc' = masterKeyCache initializedWorld"
    by blast
  from det [THEN conjunct2, THEN conjunct1] run' unlock(1)
  obtain k0 where k0: "masterKeyCache initializedWorld = Some k0"
    "deriveManifestKeyFromPrivateKey refPlatform ''0a0B'' = Inr k0"
    by blast
  with key have "masterKeyCache initializedWorld
          = Some (CryptoKey ([10, 11] @ replicate 16 0 @ utf8 ''manifest-encryption''))"
    by simp
  with run' unlock key key' show ?thesis by simp
qed

subsection \<open>C8: removing a file that is not there\<close>

text \<open>
  Claim C8, as the code has it. On an unlocked manifest in which \<open>fid\<close> does not occur,
  \<^verbatim>\<open>removeFileFromManifest\<close> raises no not-found error. It succeeds when the storage is
  reachable and the session storage takes the write; it fails with the transport error when
  the storage is unreachable, and with the exception of the session storage, after the
  upload, when that refuses the write. In every case the cached manifest afterwards has the
  same files and has the clock reading of the call as \<open>updatedAt\<close>, which is later than the
  previous value exactly when that reading is; and when the storage is reachable it holds,
  under the manifest key, the nonce followed by the AES-GCM encryption, under the master key
  and that nonce, of the JSON text of that whole manifest.
\<close>

theorem removeFile_absent_id:
  assumes "manifestCache w = Some m" and "masterKeyCache w = Some k"
    and "fid \<notin> fileId ` set (files m)"
  shows "\<exists>r w'. removeFileFromManifest P c now riv fid w = (r, w')
       \<and> r = (if remote w c = None then Inl TransportError
              else if sessionAccepts w SESSION_CACHE_KEY
                        (stringifyManifest P (m\<lparr>updatedAt := now\<rparr>))
              then Inr () else Inl QuotaExceededError)
       \<and> manifestCache w' = Some (m\<lparr>updatedAt := now\<rparr>)
       \<and> files (m\<lparr>updatedAt := now\<rparr>) = files m
       \<and> updatedAt (m\<lparr>updatedAt := now\<rparr>) = now
       \<and> ((updatedAt m < updatedAt (m\<lparr>updatedAt := now\<rparr>)) = (updatedAt m < now))
       \<and> (\<forall>objs. remote w c = Some objs \<longrightarrow>
             remote w' c =
               Some (objs(MANIFEST_KEY \<mapsto>
                 riv @ encrypt P riv k (utf8 (stringifyManifest P (m\<lparr>updatedAt := now\<rparr>))))))"
proof -
  let ?m' = "m\<lparr>updatedAt := now\<rparr>"
  let ?w1 = "w\<lparr>manifestCache := Some ?m'\<rparr>"
  have same: "filter (\<lambda>f. fileId f \<noteq> fid) (files m) = files m"
    using assms(3) by (auto simp: filter_id_conv)
  have a1: "sessionAccepts ?w1 SESSION_CACHE_KEY (stringifyManifest P ?m')
              = sessionAccepts w SESSION_CACHE_KEY (stringifyManifest P ?m')"
    by (rule sessionAccepts_cong) simp
  from sealAndUpload_outcome [of P c riv ?m' k ?w1] a1 obtain w' where
    seal: "sealAndUpload P c riv ?m' k ?w1 =
             ((if remote w c = None then Inl TransportError
               else if sessionAccepts w SESSION_CACHE_KEY (stringifyManifest P ?m') then Inr ()
               else Inl QuotaExceededError), w')"
    and cache: "manifestCache w' = Some ?m'"
    and rem: "\<forall>objs. remote w c = Some objs \<longrightarrow>
             remote w' c = Some (objs(MANIFEST_KEY \<mapsto> encryptManifest P riv ?m' k))"
    by auto
  have run: "removeFileFromManifest P c now riv fid w =
      ((if remote w c = None then Inl TransportError
        else if sessionAccepts w SESSION_CACHE_KEY (stringifyManifest P ?m') then Inr ()
        else Inl QuotaExceededError), w')"
    using assms(1,2) same seal by (simp add: removeFileFromManifest_def Let_def)
  from run cache rem show ?thesis
    by (simp add: encryptManifest_def)
qed

text \<open>
  C8 at a concrete input: the identifier \<open>zz\<close> is not in the manifest, which was last
  updated at 30; the clock reads 50.
\<close>

theorem removeFile_absent_id_witness:
  "''zz'' \<notin> fileId ` set (files refManifest)
   \<and> fst (removeFileFromManifest refPlatform refConfig 50 [0] ''zz'' refWorld) = Inr ()
   \<and> manifestCache (snd (removeFileFromManifest refPlatform refConfig 50 [0] ''zz'' refWorld))
       = Some (refManifest\<lparr>updatedAt := 50\<rparr>)
   \<and> map_option (\<lambda>objs. objs MANIFEST_KEY)
        (remote (snd (removeFileFromManifest refPlatform refConfig 50 [0] ''zz'' refWorld))
           refConfig)
       = Some (Some ([0] @ encrypt refPlatform [0] refKey
            (utf8 (stringifyManifest refPlatform (refManifest\<lparr>updatedAt := 50\<rparr>)))))"
proof -
  have a: "''zz'' \<notin> fileId ` set (files refManifest)"
    by (simp add: refManifest_def refFile_def)
  from removeFile_absent_id [OF refWorld_unlocked(1,2) a, of refPlatform refConfig 50 "[0]"]
  show ?thesis using a refWorld_unlocked(3) by (auto simp: refWorld_accepts)
qed

text \<open>
  C8 as it is worded fails in one point: removing the absent identifier \<open>zz\<close> at the clock
  reading 30 from a manifest whose \<open>updatedAt\<close> is 30 succeeds, and \<open>updatedAt\<close> is still 30:
  it has not advanced.
\<close>

theorem removeFile_absent_id_same_clock_reading:
  "''zz'' \<notin> fileId ` set (files refManifest)
   \<and> manifestCache refWorld = Some refManifest
   \<and> updatedAt refManifest = 30
   \<and> fst (removeFileFromManifest refPlatform refConfig 30 [0] ''zz'' refWorld) = Inr ()
   \<and> map_option updatedAt
        (manifestCache (snd (removeFileFromManifest refPlatform refConfig 30 [0] ''zz'' refWorld)))
       = Some 30"
  by (simp add: removeFileFromManifest_def sealAndUpload_def uploadToStorage_def
      saveToSessionCache_def setItem_def refWorld_def refArea_def refManifest_def refFile_def
      Let_def)

subsection \<open>C9: deleting a folder does not descend\<close>

text \<open>
  Claim C9. On an unlocked manifest with a folder list, \<^verbatim>\<open>deleteFolder\<close> of \<open>F\<close>, in either
  mode, returns the identifiers of the files it deleted when the storage is reachable and
  the session storage takes the write, and fails with the transport error or with the
  exception of the session storage otherwise; in every case the cached manifest afterwards
  is this: the folder list has lost exactly the folders whose identifier is \<open>F\<close>, so that
  every other folder whose \<open>parentId\<close> is \<open>F\<close> stays in the list with that \<open>parentId\<close>, which
  no folder of the list carries as identifier any more; the files are filtered or rewritten
  by their own \<open>folderId\<close> alone, and every file whose \<open>folderId\<close> is not \<open>F\<close>, those of the
  subfolders among them, is kept as it is.
\<close>

theorem deleteFolder_not_recursive:
  assumes "manifestCache w = Some m" and "masterKeyCache w = Some k"
    and "folders m = Some fs"
  shows "\<exists>r w' m'. deleteFolder P c now riv F deleteContents w = (r, w')
           \<and> r = (if remote w c = None then Inl TransportError
                  else if sessionAccepts w SESSION_CACHE_KEY (stringifyManifest P m')
                  then Inr (if deleteContents
                            then map fileId (filter (\<lambda>f. folderId f = Some F) (files m))
                            else [])
                  else Inl QuotaExceededError)
           \<and> manifestCache w' = Some m'
           \<and> folders m' = Some (filter (\<lambda>g. f_id g \<noteq> F) fs)
           \<and> (\<forall>g \<in> set fs. f_parentId g = Some F \<and> f_id g \<noteq> F \<longrightarrow>
                 (\<exists>fs'. folders m' = Some fs' \<and> g \<in> set fs' \<and> F \<notin> f_id ` set fs'))
           \<and> files m' = (if deleteContents
                          then filter (\<lambda>f. folderId f \<noteq> Some F) (files m)
                          else map (\<lambda>f. if folderId f = Some F then f\<lparr>folderId := None\<rparr> else f)
                                 (files m))
           \<and> (\<forall>f \<in> set (files m). folderId f \<noteq> Some F \<longrightarrow> f \<in> set (files m'))"
proof -
  let ?fl = "if deleteContents
             then filter (\<lambda>f. folderId f \<noteq> Some F) (files m)
             else map (\<lambda>f. if folderId f = Some F then f\<lparr>folderId := None\<rparr> else f) (files m)"
  let ?m' = "m\<lparr>files := ?fl, folders := Some (filter (\<lambda>g. f_id g \<noteq> F) fs),
               updatedAt := now\<rparr>"
  let ?w1 = "w\<lparr>manifestCache := Some ?m'\<rparr>"
  let ?ids = "if deleteContents
              then map fileId (filter (\<lambda>f. folderId f = Some F) (files m)) else []"
  let ?r = "if remote w c = None then Inl TransportError
            else if sessionAccepts w SESSION_CACHE_KEY (stringifyManifest P ?m')
            then Inr ?ids else (Inl QuotaExceededError :: error + string list)"
  have a1: "sessionAccepts ?w1 SESSION_CACHE_KEY (stringifyManifest P ?m')
              = sessionAccepts w SESSION_CACHE_KEY (stringifyManifest P ?m')"
    by (rule sessionAccepts_cong) simp
  from sealAndUpload_outcome [of P c riv ?m' k ?w1] a1 obtain w' where
    seal: "sealAndUpload P c riv ?m' k ?w1 =
             ((if remote w c = None then Inl TransportError
               else if sessionAccepts w SESSION_CACHE_KEY (stringifyManifest P ?m') then Inr ()
               else Inl QuotaExceededError), w')"
    and cache: "manifestCache w' = Some ?m'"
    by auto
  have run: "deleteFolder P c now riv F deleteContents w = (?r, w')"
    using assms seal
    by (cases deleteContents) (simp_all add: deleteFolder_def Let_def)
  have keep: "\<forall>f \<in> set (files m). folderId f \<noteq> Some F \<longrightarrow> f \<in> set ?fl"
    by (auto simp: image_iff)
  show ?thesis
    apply (rule exI [of _ ?r], rule exI [of _ w'], rule exI [of _ ?m'])
    using run cache keep by (cases deleteContents) auto
qed

text \<open>
  C9 at a concrete input: \<open>F\<close> is deleted with its contents; its subfolder \<open>G\<close> and the file
  \<open>f3\<close> in \<open>G\<close> stay.
\<close>

theorem deleteFolder_not_recursive_witness:
  "fst (deleteFolder refPlatform refConfig 50 [0] ''F'' True refWorld) = Inr [''f1'']
   \<and> map_option (\<lambda>m. map_option (map (\<lambda>g. (f_id g, f_parentId g))) (folders m))
        (manifestCache (snd (deleteFolder refPlatform refConfig 50 [0] ''F'' True refWorld)))
       = Some (Some [(''G'', Some ''F'')])
   \<and> map_option (\<lambda>m. map (\<lambda>f. (fileId f, folderId f)) (files m))
        (manifestCache (snd (deleteFolder refPlatform refConfig 50 [0] ''F'' True refWorld)))
       = Some [(''f2'', None), (''f3'', Some ''G'')]"
proof -
  have fo: "folders refManifest
      = Some [refFolder ''F'' ''Docs'' None, refFolder ''G'' ''Sub'' (Some ''F'')]"
    by (simp add: refManifest_def)
  from deleteFolder_not_recursive [OF refWorld_unlocked(1,2) fo,
      of refPlatform refConfig 50 "[0]" "''F''" True]
  show ?thesis
    by (auto simp: refManifest_def refFile_def refFolder_def refWorld_accepts
        refWorld_unlocked(3))
qed

subsection \<open>C10: listing the files\<close>

text \<open>
  Claim C10. With a manifest cached, \<^verbatim>\<open>getFilesFromManifest\<close> returns the entries of the
  manifest, each as often as it occurs, ordered by \<open>uploadedAt\<close> descending, with entries of
  the same time in their order of insertion; and the state, the cached manifest and the
  order of its files included, is as it was.
\<close>

theorem getFilesFromManifest_sorted_pure:
  assumes "manifestCache w = Some m"
  shows "\<exists>r. getFilesFromManifest P w = (r, w)
           \<and> sorted_wrt (\<lambda>a b. uploadedAt a \<ge> uploadedAt b) r
           \<and> mset r = mset (files m)
           \<and> (\<forall>t. filter (\<lambda>f. uploadedAt f = t) r = filter (\<lambda>f. uploadedAt f = t) (files m))"
proof -
  let ?r = "sort_key (\<lambda>f. - uploadedAt f) (files m)"
  have 1: "getFilesFromManifest P w = (?r, w)"
    using assms by (simp add: getFilesFromManifest_def getManifest_def)
  have "sorted (map (\<lambda>f. - uploadedAt f) ?r)" by (rule sorted_sort_key)
  then have 2: "sorted_wrt (\<lambda>a b. uploadedAt a \<ge> uploadedAt b) ?r"
    by (simp add: sorted_wrt_map)
  have 3: "\<forall>t. filter (\<lambda>f. uploadedAt f = t) ?r = filter (\<lambda>f. uploadedAt f = t) (files m)"
  proof
    fix t
    have "filter (\<lambda>f. - uploadedAt f = - t) ?r = filter (\<lambda>f. - uploadedAt f = - t) (files m)"
      by (rule sort_key_stable)
    then show "filter (\<lambda>f. uploadedAt f = t) ?r = filter (\<lambda>f. uploadedAt f = t) (files m)"
      by simp
  qed
  show ?thesis using 1 2 3 by simp
qed

text \<open>
  C10 at a concrete input: the files \<open>f1\<close>, \<open>f2\<close>, \<open>f3\<close>, uploaded at 10, 20 and 15.
\<close>

theorem getFilesFromManifest_sorted_pure_witness:
  "manifestCache refWorld = Some refManifest
   \<and> map fileId (files refManifest) = [''f1'', ''f2'', ''f3'']
   \<and> map fileId (fst (getFilesFromManifest refPlatform refWorld)) = [''f2'', ''f3'', ''f1'']
   \<and> snd (getFilesFromManifest refPlatform refWorld) = refWorld"
proof -
  have e: "map fileId (fst (getFilesFromManifest refPlatform refWorld)) = [''f2'', ''f3'', ''f1'']"
    by (simp add: getFilesFromManifest_def getManifest_def refWorld_def refManifest_def
        refFile_def)
  have i: "map fileId (files refManifest) = [''f1'', ''f2'', ''f3'']"
    by (simp add: refManifest_def refFile_def)
  from getFilesFromManifest_sorted_pure [OF refWorld_unlocked(1), of refPlatform]
  show ?thesis
    using e i refWorld_unlocked(1) by auto
qed

end
